theory Spec2Isabelle
  imports Main "HOL-Library.Sublist"
begin

section \<open>Strings of the platform\<close>

text \<open>
  A JavaScript string is modelled as a \<^typ>\<open>string\<close>; a \<^typ>\<open>char\<close> stands for a code unit
  below 256. The three string primitives the sources call are written out here:
  \<^verbatim>\<open>String.prototype.trim\<close>, \<^verbatim>\<open>replace\<close> with a global regular expression that is a
  literal pattern and the empty replacement, and \<^verbatim>\<open>split\<close> on a one-character separator.
\<close>

definition is_ws :: "char \<Rightarrow> bool" where
  \<comment> \<open>WhiteSpace and LineTerminator of ECMAScript below 256: TAB, LF, VT, FF, CR, SP, NBSP.\<close>
  "is_ws c = (c \<in> {CHR 0x09, CHR 0x0A, CHR 0x0B, CHR 0x0C, CHR 0x0D, CHR 0x20, CHR 0xA0})"

definition trim :: "string \<Rightarrow> string" where
  "trim s = rev (dropWhile is_ws (rev (dropWhile is_ws s)))"

text \<open>
  \<^verbatim>\<open>s.replace(/p/g, '')\<close> for a literal pattern \<open>p\<close>: the leftmost match is deleted and
  the scan goes on after it, so matches never overlap and the result is not scanned again.
\<close>

function remove_all :: "string \<Rightarrow> string \<Rightarrow> string" where
  "remove_all p [] = []"
| "remove_all p (c # cs) =
     (if p \<noteq> [] \<and> prefix p (c # cs) then remove_all p (drop (length p) (c # cs))
      else c # remove_all p cs)"
  by pat_completeness auto
termination
  by (relation "measure (\<lambda>(p, s). length s)") (auto simp: neq_Nil_conv)

text \<open>\<^verbatim>\<open>s.split(c)\<close>: the pieces between the separators; never the empty array.\<close>

fun split_js :: "char \<Rightarrow> string \<Rightarrow> string list" where
  "split_js c [] = [[]]"
| "split_js c (x # xs) =
     (if x = c then [] # split_js c xs
      else (case split_js c xs of [] \<Rightarrow> [[x]] | y # ys \<Rightarrow> (x # y) # ys))"

definition index_js :: "'a list \<Rightarrow> nat \<Rightarrow> 'a option" where
  \<comment> \<open>\<^verbatim>\<open>xs[i]\<close>: \<^verbatim>\<open>undefined\<close> (here \<open>None\<close>) out of range.\<close>
  "index_js xs i = (if i < length xs then Some (xs ! i) else None)"

section \<open>The grammar JSON.parse accepts\<close>

text \<open>
  Whether \<^verbatim>\<open>JSON.parse\<close> returns or throws is decided by the JSON grammar (ECMA-404), which
  is written here as a pushdown recogniser reading one character at a time. The stack
  holds the open arrays and objects.
\<close>

datatype str_state = SNormal | SEsc | SHex nat

datatype num_state = NMinus | NZero | NInt | NDot | NFrac | NExp | NExpSign | NExpDigits

datatype ctx = InArr | InObj

datatype jmode =
    BeforeValue
  | ArrStart
  | ObjStart
  | BeforeKey
  | KeyStr str_state
  | ValStr str_state
  | AfterKey
  | AfterValue
  | Num num_state
  | Lit string
  | Dead

type_synonym jconfig = "jmode \<times> ctx list"

definition json_ws :: "char \<Rightarrow> bool" where
  "json_ws c = (c \<in> {CHR 0x20, CHR 0x09, CHR 0x0A, CHR 0x0D})"

definition is_digit :: "char \<Rightarrow> bool" where
  "is_digit c = (c \<in> set ''0123456789'')"

definition is_hex :: "char \<Rightarrow> bool" where
  "is_hex c = (c \<in> set ''0123456789abcdefABCDEF'')"

definition is_control :: "char \<Rightarrow> bool" where
  "is_control c = ((of_char c :: nat) < 32)"

fun str_step :: "str_state \<Rightarrow> char \<Rightarrow> str_state option" where
  \<comment> \<open>Inside a string literal, before its closing quote; \<open>None\<close> is a syntax error.\<close>
  "str_step SNormal c =
     (if c = CHR 0x5C then Some SEsc
      else if is_control c then None
      else Some SNormal)"
| "str_step SEsc c =
     (if c \<in> set ''\"/bfnrt'' \<or> c = CHR 0x5C then Some SNormal
      else if c = CHR ''u'' then Some (SHex 4)
      else None)"
| "str_step (SHex n) c =
     (if is_hex c then (if n \<le> 1 then Some SNormal else Some (SHex (n - 1))) else None)"

fun num_step :: "num_state \<Rightarrow> char \<Rightarrow> num_state option" where
  \<comment> \<open>The next state when the character continues the number.\<close>
  "num_step NMinus c =
     (if c = CHR ''0'' then Some NZero else if is_digit c then Some NInt else None)"
| "num_step NZero c =
     (if c = CHR ''.'' then Some NDot
      else if c = CHR ''e'' \<or> c = CHR ''E'' then Some NExp else None)"
| "num_step NInt c =
     (if is_digit c then Some NInt
      else if c = CHR ''.'' then Some NDot
      else if c = CHR ''e'' \<or> c = CHR ''E'' then Some NExp else None)"
| "num_step NDot c = (if is_digit c then Some NFrac else None)"
| "num_step NFrac c =
     (if is_digit c then Some NFrac
      else if c = CHR ''e'' \<or> c = CHR ''E'' then Some NExp else None)"
| "num_step NExp c =
     (if c = CHR ''+'' \<or> c = CHR ''-'' then Some NExpSign
      else if is_digit c then Some NExpDigits else None)"
| "num_step NExpSign c = (if is_digit c then Some NExpDigits else None)"
| "num_step NExpDigits c = (if is_digit c then Some NExpDigits else None)"

fun num_done :: "num_state \<Rightarrow> bool" where
  "num_done NZero = True"
| "num_done NInt = True"
| "num_done NFrac = True"
| "num_done NExpDigits = True"
| "num_done _ = False"

definition value_start :: "ctx list \<Rightarrow> char \<Rightarrow> jconfig" where
  \<comment> \<open>The first character of a value.\<close>
  "value_start st c =
     (if c = CHR 0x22 then (ValStr SNormal, st)
      else if c = CHR ''{'' then (ObjStart, InObj # st)
      else if c = CHR ''['' then (ArrStart, InArr # st)
      else if c = CHR ''-'' then (Num NMinus, st)
      else if c = CHR ''0'' then (Num NZero, st)
      else if is_digit c then (Num NInt, st)
      else if c = CHR ''t'' then (Lit ''rue'', st)
      else if c = CHR ''f'' then (Lit ''alse'', st)
      else if c = CHR ''n'' then (Lit ''ull'', st)
      else (Dead, st))"

definition after_value :: "ctx list \<Rightarrow> char \<Rightarrow> jconfig" where
  \<comment> \<open>The character after a complete value.\<close>
  "after_value st c =
     (if json_ws c then (AfterValue, st)
      else (case st of
              [] \<Rightarrow> (Dead, st)
            | InArr # st' \<Rightarrow>
                (if c = CHR '','' then (BeforeValue, st)
                 else if c = CHR '']'' then (AfterValue, st')
                 else (Dead, st))
            | InObj # st' \<Rightarrow>
                (if c = CHR '','' then (BeforeKey, st)
                 else if c = CHR ''}'' then (AfterValue, st')
                 else (Dead, st))))"

fun jstep :: "jconfig \<Rightarrow> char \<Rightarrow> jconfig" where
  "jstep (BeforeValue, st) c = (if json_ws c then (BeforeValue, st) else value_start st c)"
| "jstep (ArrStart, st) c =
     (if json_ws c then (ArrStart, st)
      else if c = CHR '']'' then (AfterValue, tl st)
      else value_start st c)"
| "jstep (ObjStart, st) c =
     (if json_ws c then (ObjStart, st)
      else if c = CHR ''}'' then (AfterValue, tl st)
      else if c = CHR 0x22 then (KeyStr SNormal, st)
      else (Dead, st))"
| "jstep (BeforeKey, st) c =
     (if json_ws c then (BeforeKey, st)
      else if c = CHR 0x22 then (KeyStr SNormal, st)
      else (Dead, st))"
| "jstep (KeyStr q, st) c =
     (if q = SNormal \<and> c = CHR 0x22 then (AfterKey, st)
      else (case str_step q c of None \<Rightarrow> (Dead, st) | Some q' \<Rightarrow> (KeyStr q', st)))"
| "jstep (ValStr q, st) c =
     (if q = SNormal \<and> c = CHR 0x22 then (AfterValue, st)
      else (case str_step q c of None \<Rightarrow> (Dead, st) | Some q' \<Rightarrow> (ValStr q', st)))"
| "jstep (AfterKey, st) c =
     (if json_ws c then (AfterKey, st)
      else if c = CHR '':'' then (BeforeValue, st)
      else (Dead, st))"
| "jstep (AfterValue, st) c = after_value st c"
| "jstep (Num q, st) c =
     (case num_step q c of
        Some q' \<Rightarrow> (Num q', st)
      | None \<Rightarrow> (if num_done q then after_value st c else (Dead, st)))"
| "jstep (Lit l, st) c =
     (case l of
        [] \<Rightarrow> (Dead, st)
      | x # xs \<Rightarrow> (if c = x then (if xs = [] then (AfterValue, st) else (Lit xs, st))
                  else (Dead, st)))"
| "jstep (Dead, st) c = (Dead, st)"

definition jrun :: "jconfig \<Rightarrow> string \<Rightarrow> jconfig" where
  "jrun k s = foldl jstep k s"

fun accepting :: "jconfig \<Rightarrow> bool" where
  "accepting (AfterValue, st) = (st = [])"
| "accepting (Num q, st) = (num_done q \<and> st = [])"
| "accepting _ = False"

definition json_valid :: "string \<Rightarrow> bool" where
  "json_valid s = accepting (jrun (BeforeValue, []) s)"

section \<open>The data model (types.ts)\<close>

text \<open>
  The two enumerations share the labels Low and High, so the constructors carry the name
  of their type; \<open>riskLevel_str\<close> and \<open>status_str\<close> give the strings of the source.
\<close>

datatype RiskLevel = RiskLow | RiskModerate | RiskHigh

datatype LabStatus = LabNormal | LabLow | LabHigh | LabAbnormal

fun riskLevel_str :: "RiskLevel \<Rightarrow> string" where
  "riskLevel_str RiskLow = ''Low''"
| "riskLevel_str RiskModerate = ''Moderate''"
| "riskLevel_str RiskHigh = ''High''"

fun status_str :: "LabStatus \<Rightarrow> string" where
  "status_str LabNormal = ''Normal''"
| "status_str LabLow = ''Low''"
| "status_str LabHigh = ''High''"
| "status_str LabAbnormal = ''Abnormal''"

record PotentialError =
  errorType :: string
  riskLevel :: RiskLevel
  error' :: string
  explanation :: string

record DrugInfo =
  drugName :: string
  drugClass :: string
  mechanismOfAction :: string
  indication :: string
  prescribedDose :: string
  standardDose :: string
  adverseEffects :: string
  monitoring :: string
  precautions :: string

record LabValue =
  parameter :: string
  value' :: string
  unit :: string
  status :: LabStatus
  interpretation' :: string

record AnalysisResult =
  potentialErrors :: "PotentialError list"
  drugInformation :: "DrugInfo list"
  labInterpretation :: "LabValue list"

section \<open>The service (services/geminiService.ts)\<close>

datatype js_error = Error string | SyntaxError | TypeError

record service =
  apiKey :: string

definition load_service :: "string option \<Rightarrow> js_error + service" where
  \<comment> \<open>The statements the module runs when it is loaded; the argument is
      \<^verbatim>\<open>process.env.API_KEY\<close>, \<open>None\<close> when it is not set. The empty string is falsy too.\<close>
  "load_service env_API_KEY =
     (case env_API_KEY of
        None \<Rightarrow> Inl (Error ''API_KEY environment variable not set'')
      | Some k \<Rightarrow>
          (if k = [] then Inl (Error ''API_KEY environment variable not set'')
           else Inr \<lparr>apiKey = k\<rparr>))"

definition basePrompt :: string where
  "basePrompt =
     ''\<newline>'' @
     ''  Act as an expert AI Clinical Pharmacist. Your task is to analyze the provided medical information with the highest degree of clinical accuracy.\<newline>'' @
     ''  Your analysis must be structured according to the provided JSON schema and based on established clinical guidelines (e.g., WHO, NICE, KDIGO).\<newline>'' @
     ''\<newline>'' @
     ''  1.  **Medication Error Detection:** Scrutinize all prescribed medications. Identify and report any potential errors including, but not limited to:\<newline>'' @
     ''      -   Incorrect drug, dose, frequency, or duration.\<newline>'' @
     ''      -   Significant drug-drug interactions.\<newline>'' @
     ''      -   Contraindications based on diagnosis or lab values (e.g., Metformin with low eGFR).\<newline>'' @
     ''      -   Duplicate therapy.\<newline>'' @
     ''      -   Allergy-related errors if information is available.\<newline>'' @
     ''      For each error, specify the type, assess the clinical risk level (Low, Moderate, High), and provide a clear, concise explanation referencing clinical principles or guidelines.\<newline>'' @
     ''\<newline>'' @
     ''  2.  **Lab Value Interpretation:** If lab results are present, identify any abnormal values. For each, state the parameter, its value, status (Normal, Low, High), and its clinical significance, especially in relation to the prescribed medications.\<newline>'' @
     ''\<newline>'' @
     ''  3.  **Drug-wise Professional Explanation:** For EACH drug identified, provide a comprehensive professional summary covering:\<newline>'' @
     ''      -   Drug Name (Generic/Brand)\<newline>'' @
     ''      -   Class\<newline>'' @
     ''      -   Mechanism of Action\<newline>'' @
     ''      -   Indication (why it's used)\<newline>'' @
     ''      -   Prescribed Dose vs. Standard Dose\<newline>'' @
     ''      -   Key Adverse Effects\<newline>'' @
     ''      -   Essential Lab Monitoring\<newline>'' @
     ''      -   Special Precautions (e.g., renal/hepatic adjustments).\<newline>'' @
     ''\<newline>'' @
     ''  If a section is not applicable (e.g., no lab results), return an empty array for that key. Your output must be nothing but a valid JSON object that strictly conforms to the schema.\<newline>''"

text \<open>
  A request is what \<^verbatim>\<open>ai.models.generateContent\<close> is called with, together with the key
  of the client that sends it. The response schema is a constant of the module and is
  left out of the record.
\<close>

datatype part = InlineData "string option" "string option" | TextPart string

record contents =
  parts :: "part list"

record request =
  key :: string
  model :: string
  body :: contents
  responseMimeType :: string

text \<open>
  The remote call either rejects with an error or resolves to a response whose
  \<^verbatim>\<open>text\<close> may be undefined.
\<close>

datatype api_outcome = Rejected js_error | Resolved "string option"

definition JSON_parse :: "(string \<Rightarrow> 'r) \<Rightarrow> string \<Rightarrow> js_error + 'r" where
  \<comment> \<open>\<^verbatim>\<open>JSON.parse\<close> throws a SyntaxError outside the grammar. The value it builds is typed
      \<^verbatim>\<open>any\<close> and returned as an \<^verbatim>\<open>AnalysisResult\<close> unchecked; \<open>decode\<close> stands for both.\<close>
  "JSON_parse decode s = (if json_valid s then Inr (decode s) else Inl SyntaxError)"

definition cleanedJson :: "string \<Rightarrow> string" where
  "cleanedJson t = trim (remove_all ''```'' (remove_all ''```json'' t))"

definition generateContent_args :: "service \<Rightarrow> contents \<Rightarrow> request" where
  \<comment> \<open>The call \<^verbatim>\<open>performAnalysis\<close> makes.\<close>
  "generateContent_args ai cs =
     \<lparr>key = apiKey ai, model = ''gemini-3-pro-preview'', body = cs,
      responseMimeType = ''application/json''\<rparr>"

definition performAnalysis_try :: "(string \<Rightarrow> 'r) \<Rightarrow> api_outcome \<Rightarrow> js_error + 'r" where
  \<comment> \<open>The body of the \<^verbatim>\<open>try\<close> block of \<^verbatim>\<open>performAnalysis\<close>, from the outcome of the call on.\<close>
  "performAnalysis_try decode outcome =
     (case outcome of
        Rejected e \<Rightarrow> Inl e
      | Resolved t \<Rightarrow>
          (case t of
             None \<Rightarrow> Inl (Error ''API returned an empty response.'')
           | Some txt \<Rightarrow>
               (if txt = [] then Inl (Error ''API returned an empty response.'')
                else JSON_parse decode (cleanedJson txt))))"

definition performAnalysis :: "(string \<Rightarrow> 'r) \<Rightarrow> api_outcome \<Rightarrow> js_error + 'r" where
  \<comment> \<open>With the \<^verbatim>\<open>catch\<close>: every error is replaced by one error.\<close>
  "performAnalysis decode outcome =
     (case performAnalysis_try decode outcome of
        Inl e \<Rightarrow> Inl (Error ''Failed to analyze the document. The API could not process the request.'')
      | Inr r \<Rightarrow> Inr r)"

definition documentPrompt :: string where
  "documentPrompt = basePrompt @ ''\<newline>\<newline>The medical information is in the attached image.''"

definition textPrompt :: "string \<Rightarrow> string" where
  "textPrompt t =
     basePrompt @ ''\<newline>\<newline>Here is the medical text to analyze:\<newline>\<newline>---\<newline>'' @ t @ ''\<newline>---''"

definition analyzeHealthDocument :: "service \<Rightarrow> string option \<Rightarrow> string option \<Rightarrow> request" where
  \<comment> \<open>The request \<^verbatim>\<open>analyzeHealthDocument(base64ImageData, mimeType)\<close> sends.\<close>
  "analyzeHealthDocument ai base64ImageData mimeType =
     generateContent_args ai
       \<lparr>parts = [InlineData base64ImageData mimeType, TextPart documentPrompt]\<rparr>"

definition analyzeHealthText :: "service \<Rightarrow> string \<Rightarrow> request" where
  "analyzeHealthText ai t = generateContent_args ai \<lparr>parts = [TextPart (textPrompt t)]\<rparr>"

section \<open>The page (App.tsx): state and handlers\<close>

datatype Tab = Errors | Drugs | Labs

datatype InputMode = Upload | Text | Voice

record File =
  fileName :: string
  fileType :: string

text \<open>
  The state hooks of the component, in the order of the source (\<open>file'\<close> is the hook
  \<^verbatim>\<open>file\<close>); \<open>recognition\<close> says
  whether \<^verbatim>\<open>recognitionRef.current\<close> holds a recogniser (the browser has one).
\<close>

record ui_state =
  file' :: "File option"
  previewUrl :: "string option"
  inputText :: string
  inputMode :: InputMode
  analysisResult :: "AnalysisResult option"
  isLoading :: bool
  error :: "string option"
  activeTab :: Tab
  isRecording :: bool
  recognition :: bool

definition truthy :: "string option \<Rightarrow> bool" where
  \<comment> \<open>A string or null in a condition: null and the empty string are falsy.\<close>
  "truthy x = (case x of None \<Rightarrow> False | Some v \<Rightarrow> v \<noteq> [])"

definition clearAnalysis :: "'a ui_state_scheme \<Rightarrow> 'a ui_state_scheme" where
  "clearAnalysis s = s\<lparr>analysisResult := None, error := None, activeTab := Errors\<rparr>"

definition setInputMode :: "InputMode \<Rightarrow> 'a ui_state_scheme \<Rightarrow> 'a ui_state_scheme" where
  "setInputMode m s = s\<lparr>inputMode := m\<rparr>"

definition setActiveTab :: "Tab \<Rightarrow> 'a ui_state_scheme \<Rightarrow> 'a ui_state_scheme" where
  "setActiveTab t s = s\<lparr>activeTab := t\<rparr>"

definition handleFileChange :: "File option \<Rightarrow> 'a ui_state_scheme \<Rightarrow> 'a ui_state_scheme" where
  \<comment> \<open>The argument is \<^verbatim>\<open>event.target.files?.[0]\<close>. The preview is set later, when the
      reader started here is done (\<open>previewLoaded\<close>).\<close>
  "handleFileChange selectedFile s =
     (case selectedFile of
        None \<Rightarrow> s
      | Some f \<Rightarrow> clearAnalysis (s\<lparr>file' := Some f\<rparr>))"

definition previewLoaded :: "string option \<Rightarrow> 'a ui_state_scheme \<Rightarrow> 'a ui_state_scheme" where
  "previewLoaded result s = s\<lparr>previewUrl := result\<rparr>"

definition handleTextChange :: "string \<Rightarrow> 'a ui_state_scheme \<Rightarrow> 'a ui_state_scheme" where
  "handleTextChange v s =
     (let s1 = s\<lparr>inputText := v\<rparr>
      in if analysisResult s \<noteq> None \<or> truthy (error s) then clearAnalysis s1 else s1)"

definition toggleRecording :: "'a ui_state_scheme \<Rightarrow> 'a ui_state_scheme" where
  "toggleRecording s =
     (if \<not> recognition s
      then s\<lparr>error := Some ''Speech recognition is not supported in your browser.''\<rparr>
      else if isRecording s then s\<lparr>isRecording := False\<rparr>
      else (if analysisResult s \<noteq> None \<or> truthy (error s) then clearAnalysis s else s)
             \<lparr>isRecording := True\<rparr>)"

definition clearInput :: "'a ui_state_scheme \<Rightarrow> 'a ui_state_scheme" where
  "clearInput s = clearAnalysis (s\<lparr>file' := None, previewUrl := None, inputText := []\<rparr>)"

definition isAnalyzeDisabled :: "'a ui_state_scheme \<Rightarrow> bool" where
  "isAnalyzeDisabled s =
     (isLoading s \<or> (inputMode s = Upload \<and> file' s = None)
      \<or> (inputMode s \<noteq> Upload \<and> trim (inputText s) = []))"

subsection \<open>Speech recognition\<close>

record speech_result =
  isFinal :: bool
  alternatives :: "string list"

record speech_event =
  resultIndex :: nat
  results :: "speech_result list"

text \<open>
  The loop of \<^verbatim>\<open>recognition.onresult\<close> from index \<open>i\<close> on, with the two accumulators.
  Reading the transcript of a result that has no alternative throws.
\<close>

function onresult_loop ::
  "speech_result list \<Rightarrow> nat \<Rightarrow> string \<Rightarrow> string \<Rightarrow> js_error + (string \<times> string)" where
  "onresult_loop rs i interimTranscript finalTranscript =
     (if i < length rs then
        (case alternatives (rs ! i) of
           [] \<Rightarrow> Inl TypeError
         | transcript # _ \<Rightarrow>
             (if isFinal (rs ! i)
              then onresult_loop rs (i + 1) interimTranscript (finalTranscript @ transcript)
              else onresult_loop rs (i + 1) (interimTranscript @ transcript) finalTranscript))
      else Inr (interimTranscript, finalTranscript))"
  by pat_completeness auto
termination
  by (relation "measure (\<lambda>(rs, i, a, b). length rs - i)") auto

declare onresult_loop.simps [simp del]

definition onresult :: "speech_event \<Rightarrow> 'a ui_state_scheme \<Rightarrow> 'a ui_state_scheme" where
  \<comment> \<open>An exception leaves the handler before \<^verbatim>\<open>setInputText\<close>.\<close>
  "onresult ev s =
     (case onresult_loop (results ev) (resultIndex ev) [] [] of
        Inl e \<Rightarrow> s
      | Inr (interimTranscript, finalTranscript) \<Rightarrow>
          s\<lparr>inputText := inputText s @ finalTranscript\<rparr>)"

definition onerror :: "string \<Rightarrow> 'a ui_state_scheme \<Rightarrow> 'a ui_state_scheme" where
  "onerror e s =
     s\<lparr>error := Some (''Speech recognition error: '' @ e
                       @ ''. Please ensure microphone access is granted.''),
       isRecording := False\<rparr>"

subsection \<open>Analysis\<close>

text \<open>
  \<^verbatim>\<open>handleAnalyze\<close> is asynchronous: it runs to its first \<^verbatim>\<open>await\<close>, and goes on when the
  awaited promise settles. A suspended call is a \<open>task\<close> of the system state; \<open>sent\<close>
  is the log of the requests handed to the remote service.
\<close>

datatype task = AwaitEncode File | AwaitApi request

record system = ui_state +
  ai :: service
  pending :: "task list"
  sent :: "request list"

definition fileToBase64 :: "string \<Rightarrow> string option \<times> string option" where
  \<comment> \<open>From the data URL the reader produced: (mimeType, data).\<close>
  "fileToBase64 result =
     ((case split_js CHR '';'' result of
         [] \<Rightarrow> None
       | h # _ \<Rightarrow> index_js (split_js CHR '':'' h) 1),
      index_js (split_js CHR '','' result) 1)"

definition analysisFailed :: string where
  "analysisFailed =
     ''An error occurred during analysis. The input may be unclear or the format unsupported. Please try again.''"

definition handleAnalyze :: "system \<Rightarrow> system" where
  \<comment> \<open>From the click to the first \<^verbatim>\<open>await\<close>, or to the end when no input is there.\<close>
  "handleAnalyze s =
     (let s1 = (clearAnalysis s)\<lparr>isLoading := True\<rparr>
      in case (inputMode s, file' s) of
           (Upload, Some f) \<Rightarrow> s1\<lparr>pending := pending s1 @ [AwaitEncode f]\<rparr>
         | _ \<Rightarrow>
            (if (inputMode s = Text \<or> inputMode s = Voice) \<and> trim (inputText s) \<noteq> []
             then (let rq = analyzeHealthText (ai s) (inputText s)
                   in s1\<lparr>pending := pending s1 @ [AwaitApi rq], sent := sent s1 @ [rq]\<rparr>)
             else s1\<lparr>error := Some ''Please provide input before analyzing.'',
                    isLoading := False\<rparr>))"

definition drop_task :: "nat \<Rightarrow> system \<Rightarrow> system" where
  "drop_task i s = s\<lparr>pending := take i (pending s) @ drop (Suc i) (pending s)\<rparr>"

definition handleAnalyze_catch :: "system \<Rightarrow> system" where
  \<comment> \<open>The \<^verbatim>\<open>catch\<close> and \<^verbatim>\<open>finally\<close> blocks.\<close>
  "handleAnalyze_catch s = s\<lparr>error := Some analysisFailed, isLoading := False\<rparr>"

definition handleAnalyze_encoded :: "nat \<Rightarrow> string option \<Rightarrow> system \<Rightarrow> system" where
  \<comment> \<open>Task \<open>i\<close> goes on after \<^verbatim>\<open>await fileToBase64(file)\<close>: the reader failed (\<open>None\<close>) or
      produced a data URL.\<close>
  "handleAnalyze_encoded i outcome s =
     (case outcome of
        None \<Rightarrow> handleAnalyze_catch (drop_task i s)
      | Some url \<Rightarrow>
          (let (mimeType, data) = fileToBase64 url;
               rq = analyzeHealthDocument (ai s) data mimeType
           in s\<lparr>pending := (pending s)[i := AwaitApi rq], sent := sent s @ [rq]\<rparr>))"

definition handleAnalyze_settled ::
  "(string \<Rightarrow> AnalysisResult) \<Rightarrow> nat \<Rightarrow> api_outcome \<Rightarrow> system \<Rightarrow> system" where
  \<comment> \<open>Task \<open>i\<close> goes on after the \<^verbatim>\<open>await\<close> of the analysis.\<close>
  "handleAnalyze_settled decode i outcome s =
     (case performAnalysis decode outcome of
        Inl e \<Rightarrow> handleAnalyze_catch (drop_task i s)
      | Inr r \<Rightarrow> (drop_task i s)\<lparr>analysisResult := Some r, isLoading := False\<rparr>)"

subsection \<open>Events\<close>

text \<open>
  What can happen to the page. The analyse button carries \<^verbatim>\<open>disabled={isAnalyzeDisabled}\<close>,
  so its click is an event only when it is enabled; a promise settles only for a task
  that awaits it. The other controls are taken to be always there, which allows more
  runs than the page does.
\<close>

datatype event =
    SetInputMode InputMode
  | FileChange "File option"
  | PreviewLoaded "string option"
  | TextChange string
  | ToggleRecording
  | SpeechResult speech_event
  | SpeechError string
  | ClearInput
  | SetActiveTab Tab
  | ClickAnalyze
  | EncodeDone nat "string option"
  | ApiDone nat api_outcome

fun fire :: "(string \<Rightarrow> AnalysisResult) \<Rightarrow> event \<Rightarrow> system \<Rightarrow> system option" where
  "fire decode (SetInputMode m) s = Some (setInputMode m s)"
| "fire decode (FileChange f) s = Some (handleFileChange f s)"
| "fire decode (PreviewLoaded r) s = Some (previewLoaded r s)"
| "fire decode (TextChange v) s = Some (handleTextChange v s)"
| "fire decode ToggleRecording s = Some (toggleRecording s)"
| "fire decode (SpeechResult ev) s = Some (onresult ev s)"
| "fire decode (SpeechError e) s = Some (onerror e s)"
| "fire decode ClearInput s = Some (clearInput s)"
| "fire decode (SetActiveTab t) s = Some (setActiveTab t s)"
| "fire decode ClickAnalyze s = (if isAnalyzeDisabled s then None else Some (handleAnalyze s))"
| "fire decode (EncodeDone i outcome) s =
     (if i < length (pending s) then
        (case pending s ! i of
           AwaitEncode f \<Rightarrow> Some (handleAnalyze_encoded i outcome s)
         | AwaitApi rq \<Rightarrow> None)
      else None)"
| "fire decode (ApiDone i outcome) s =
     (if i < length (pending s) then
        (case pending s ! i of
           AwaitEncode f \<Rightarrow> None
         | AwaitApi rq \<Rightarrow> Some (handleAnalyze_settled decode i outcome s))
      else None)"

definition initial :: "service \<Rightarrow> bool \<Rightarrow> system" where
  \<comment> \<open>The initial values of the hooks.\<close>
  "initial svc speech =
     \<lparr>file' = None, previewUrl = None, inputText = [], inputMode = Upload,
      analysisResult = None, isLoading = False, error = None, activeTab = Errors,
      isRecording = False, recognition = speech, ai = svc, pending = [], sent = []\<rparr>"

definition boot :: "string option \<Rightarrow> bool \<Rightarrow> js_error + system" where
  \<comment> \<open>Loading the page loads the service module first.\<close>
  "boot env_API_KEY speech =
     (case load_service env_API_KEY of
        Inl e \<Rightarrow> Inl e
      | Inr svc \<Rightarrow> Inr (initial svc speech))"

inductive reachable :: "(string \<Rightarrow> AnalysisResult) \<Rightarrow> system \<Rightarrow> bool"
  for decode :: "string \<Rightarrow> AnalysisResult" where
  reachable_boot: "boot k speech = Inr s \<Longrightarrow> reachable decode s"
| reachable_fire: "reachable decode s \<Longrightarrow> fire decode e s = Some s' \<Longrightarrow> reachable decode s'"

fun run :: "(string \<Rightarrow> AnalysisResult) \<Rightarrow> event list \<Rightarrow> system \<Rightarrow> system option" where
  \<comment> \<open>The events of a list, one after the other; \<open>None\<close> when one of them cannot happen.\<close>
  "run decode [] s = Some s"
| "run decode (e # es) s = (case fire decode e s of None \<Rightarrow> None | Some s' \<Rightarrow> run decode es s')"

section \<open>The page (App.tsx): the result view\<close>

text \<open>
  The elements the component returns for the result, as a tree: an element has a tag,
  its \<^verbatim>\<open>className\<close> and its children; \<open>Icon\<close> is a component of
  \<^verbatim>\<open>components/Icons\<close>; \<open>TabButton t\<close> is a button whose click is \<^verbatim>\<open>setActiveTab(t)\<close>.
  A list rendered by \<^verbatim>\<open>map\<close> stands among the children of its parent.
\<close>

datatype node =
    El string string "node list"
  | Txt string
  | Icon string
  | TabButton Tab string "node list"

fun riskColorMap :: "RiskLevel \<Rightarrow> string" where
  "riskColorMap RiskHigh = ''bg-red-100 text-red-800 border-red-400''"
| "riskColorMap RiskModerate = ''bg-yellow-100 text-yellow-800 border-yellow-400''"
| "riskColorMap RiskLow = ''bg-blue-100 text-blue-800 border-blue-400''"

definition labStatusColorMap :: "string \<Rightarrow> string option" where
  "labStatusColorMap =
     map_of [(''High'', ''text-red-600 font-semibold''),
             (''Low'', ''text-blue-600 font-semibold''),
             (''Abnormal'', ''text-yellow-700 font-semibold''),
             (''Normal'', ''text-green-700'')]"

definition tabClass :: "Tab \<Rightarrow> Tab \<Rightarrow> string" where
  "tabClass active t =
     ''whitespace-nowrap flex items-center py-4 px-1 border-b-2 font-medium text-sm '' @
     (if active = t then ''border-teal-500 text-teal-600''
      else ''border-transparent text-slate-500 hover:text-slate-700 hover:border-slate-300'')"

definition tabsNav :: "Tab \<Rightarrow> node" where
  "tabsNav active =
     El ''div'' ''border-b border-slate-200 mb-4''
       [El ''nav'' ''-mb-px flex space-x-4 sm:space-x-8''
          [TabButton Errors (tabClass active Errors)
             [Icon ''AlertTriangleIcon'', Txt '' '', El ''span'' ''ml-2'' [Txt ''Error Analysis'']],
           TabButton Drugs (tabClass active Drugs)
             [Icon ''PillIcon'', Txt '' '', El ''span'' ''ml-2'' [Txt ''Drug Deep-Dive'']],
           TabButton Labs (tabClass active Labs)
             [Icon ''LabBeakerIcon'', Txt '' '', El ''span'' ''ml-2'' [Txt ''Lab Insights'']]]]"

definition errorCard :: "PotentialError \<Rightarrow> node" where
  "errorCard item =
     El ''div'' (''p-4 rounded-lg border-l-4 '' @ riskColorMap (riskLevel item))
       [El ''div'' ''flex justify-between items-start''
          [El ''p'' ''font-bold'' [Txt (errorType item)],
           El ''span''
             (''px-2 py-0.5 text-xs font-semibold rounded-full '' @ riskColorMap (riskLevel item))
             [Txt (riskLevel_str (riskLevel item)), Txt '' Risk'']],
        El ''p'' ''mt-2 text-sm'' [Txt (error' item)],
        El ''div'' ''mt-3 border-t border-slate-300/50 pt-3''
          [El ''p'' ''font-semibold text-sm flex items-center''
             [Icon ''BookOpenIcon'', Txt '' '', El ''span'' ''ml-2'' [Txt ''Clinical Rationale'']],
           El ''p'' ''mt-1 text-sm'' [Txt (explanation item)]]]"

definition noErrorsNote :: node where
  "noErrorsNote =
     El ''p'' ''text-slate-500 text-sm p-4 bg-green-50 border border-green-200 rounded-md''
       [Txt ''No potential medication errors were identified based on the provided document.'']"

definition errorsPanel :: "AnalysisResult \<Rightarrow> node" where
  "errorsPanel r =
     El ''div'' ''space-y-4''
       (El ''h3'' ''text-lg font-semibold text-slate-800'' [Txt ''Potential Medication Errors'']
        # (if 0 < length (potentialErrors r) then map errorCard (potentialErrors r)
           else [noErrorsNote]))"

definition drugField :: "string \<Rightarrow> string \<Rightarrow> node list \<Rightarrow> node" where
  \<comment> \<open>One cell of the grid of a drug: the label in bold, then the content.\<close>
  "drugField cls label content =
     El ''div'' cls (El ''strong'' ''font-semibold text-slate-600 block'' [Txt label] # content)"

definition drugCard :: "DrugInfo \<Rightarrow> node" where
  "drugCard drug =
     El ''div'' ''border border-slate-200 rounded-lg p-4''
       [El ''h4'' ''font-bold text-lg text-slate-800'' [Txt (drugName drug)],
        El ''p'' ''text-sm text-slate-500 italic'' [Txt (drugClass drug)],
        El ''div'' ''mt-4 grid grid-cols-1 md:grid-cols-2 gap-4 text-sm''
          [drugField [] ''Indication:'' [Txt '' '', Txt (indication drug)],
           drugField [] ''Mechanism:'' [Txt '' '', Txt (mechanismOfAction drug)],
           drugField [] ''Dosing:''
             [Txt '' Prescribed: '', Txt (prescribedDose drug), Txt '' (Standard: '',
              Txt (standardDose drug), Txt '')''],
           drugField [] ''Monitoring:'' [Txt '' '', Txt (monitoring drug)],
           drugField ''md:col-span-2'' ''Adverse Effects:'' [Txt '' '', Txt (adverseEffects drug)],
           drugField ''md:col-span-2'' ''Precautions:'' [Txt '' '', Txt (precautions drug)]]]"

definition noDrugsNote :: node where
  "noDrugsNote =
     El ''p'' ''text-slate-500 text-sm''
       [Txt ''No specific drug information could be extracted from the document.'']"

definition drugsPanel :: "AnalysisResult \<Rightarrow> node" where
  "drugsPanel r =
     El ''div'' ''space-y-6''
       (El ''h3'' ''text-lg font-semibold text-slate-800'' [Txt ''Prescribed Drug Information'']
        # (if 0 < length (drugInformation r) then map drugCard (drugInformation r)
           else [noDrugsNote]))"

definition labStatusClass :: "LabStatus \<Rightarrow> string" where
  \<comment> \<open>\<^verbatim>\<open>labStatusColorMap[lab.status] || 'text-slate-600'\<close>\<close>
  "labStatusClass st =
     (case labStatusColorMap (status_str st) of
        None \<Rightarrow> ''text-slate-600''
      | Some c \<Rightarrow> (if c = [] then ''text-slate-600'' else c))"

definition labRow :: "LabValue \<Rightarrow> node" where
  "labRow lab =
     El ''tr'' []
       [El ''td'' ''px-6 py-4 whitespace-nowrap text-sm font-medium text-slate-900''
          [Txt (parameter lab)],
        El ''td'' (''px-6 py-4 whitespace-nowrap text-sm '' @ labStatusClass (status lab))
          [Txt (value' lab), Txt '' '', Txt (unit lab)],
        El ''td'' ''px-6 py-4 text-sm text-slate-600'' [Txt (interpretation' lab)]]"

definition labsHeader :: node where
  "labsHeader =
     El ''thead'' ''bg-slate-50''
       [El ''tr'' []
          [El ''th'' ''px-6 py-3 text-left text-xs font-medium text-slate-500 uppercase tracking-wider''
             [Txt ''Parameter''],
           El ''th'' ''px-6 py-3 text-left text-xs font-medium text-slate-500 uppercase tracking-wider''
             [Txt ''Result''],
           El ''th'' ''px-6 py-3 text-left text-xs font-medium text-slate-500 uppercase tracking-wider''
             [Txt ''Interpretation'']]]"

definition noLabsNote :: node where
  "noLabsNote =
     El ''p'' ''text-slate-500 text-sm''
       [Txt ''No lab values were identified or interpreted from the document.'']"

definition labsPanel :: "AnalysisResult \<Rightarrow> node" where
  "labsPanel r =
     El ''div'' []
       [El ''h3'' ''text-lg font-semibold text-slate-800 mb-4'' [Txt ''Lab Value Interpretation''],
        (if 0 < length (labInterpretation r) then
           El ''div'' ''overflow-x-auto''
             [El ''table'' ''min-w-full divide-y divide-slate-200''
                [labsHeader,
                 El ''tbody'' ''bg-white divide-y divide-slate-200''
                   (map labRow (labInterpretation r))]]
         else noLabsNote)]"

fun tabPanel :: "AnalysisResult \<Rightarrow> Tab \<Rightarrow> node" where
  \<comment> \<open>Of the three conditional blocks, the one whose tab is active.\<close>
  "tabPanel r Errors = errorsPanel r"
| "tabPanel r Drugs = drugsPanel r"
| "tabPanel r Labs = labsPanel r"

definition renderResult :: "AnalysisResult \<Rightarrow> Tab \<Rightarrow> node" where
  "renderResult r active =
     El ''div'' ''mt-8 bg-white p-4 sm:p-6 rounded-xl shadow-lg''
       [tabsNav active, El ''div'' [] [tabPanel r active]]"

definition resultView :: "'a ui_state_scheme \<Rightarrow> node option" where
  \<comment> \<open>\<^verbatim>\<open>{analysisResult && (...)}\<close>\<close>
  "resultView s =
     (case analysisResult s of None \<Rightarrow> None | Some r \<Rightarrow> Some (renderResult r (activeTab s)))"

text \<open>Reading a tree: the tabs its buttons lead to, and the elements with a given tag.\<close>

fun tab_buttons :: "node \<Rightarrow> Tab list" where
  "tab_buttons (El tg cls cs) = concat (map tab_buttons cs)"
| "tab_buttons (Txt t) = []"
| "tab_buttons (Icon n) = []"
| "tab_buttons (TabButton t cls cs) = t # concat (map tab_buttons cs)"

section \<open>Notions the properties are stated with\<close>

definition first_transcript :: "speech_result \<Rightarrow> string" where
  \<comment> \<open>The segment of a result: the transcript of its first alternative.\<close>
  "first_transcript r = (case alternatives r of [] \<Rightarrow> [] | t # _ \<Rightarrow> t)"

fun is_text_part :: "part \<Rightarrow> bool" where
  "is_text_part (TextPart t) = True"
| "is_text_part (InlineData d m) = False"

definition blank :: "string \<Rightarrow> bool" where
  \<comment> \<open>No character other than whitespace.\<close>
  "blank t = list_all is_ws t"

definition no_input_msg :: string where
  "no_input_msg = ''Please provide input before analyzing.''"

text \<open>
  The invariant of the reachable states: at most one suspended call, the loading flag
  set exactly while there is one, no result shown meanwhile, and every request sent
  with the key of the loaded service, which is not empty.
\<close>

definition inv :: "system \<Rightarrow> bool" where
  "inv s =
     (length (pending s) \<le> 1 \<and> (isLoading s = (pending s \<noteq> []))
      \<and> (pending s = [] \<or> analysisResult s = None)
      \<and> apiKey (ai s) \<noteq> [] \<and> list_all (\<lambda>rq. key rq = apiKey (ai s)) (sent s))"

definition ui_step :: "system \<Rightarrow> system \<Rightarrow> bool" where
  \<comment> \<open>What a handler that neither starts nor resumes an analysis leaves alone.\<close>
  "ui_step s s' =
     (pending s' = pending s \<and> isLoading s' = isLoading s \<and> ai s' = ai s \<and> sent s' = sent s
      \<and> (analysisResult s' = analysisResult s \<or> analysisResult s' = None))"

definition no_findings :: AnalysisResult where
  \<comment> \<open>The result with three empty arrays.\<close>
  "no_findings = \<lparr>potentialErrors = [], drugInformation = [], labInterpretation = []\<rparr>"

definition no_findings_json :: string where
  \<comment> \<open>Its JSON text.\<close>
  "no_findings_json = ''{\"potentialErrors\":[],\"drugInformation\":[],\"labInterpretation\":[]}''"

definition decode_empty :: "string \<Rightarrow> AnalysisResult" where
  \<comment> \<open>A value for \<open>decode\<close> in examples: what \<^verbatim>\<open>JSON.parse\<close> builds from three empty arrays.\<close>
  "decode_empty t = no_findings"

fun call_failed :: "api_outcome \<Rightarrow> bool" where
  \<comment> \<open>The call threw, the body is empty, or the body cannot be parsed.\<close>
  "call_failed (Rejected e) = True"
| "call_failed (Resolved None) = True"
| "call_failed (Resolved (Some t)) = (t = [] \<or> \<not> json_valid (cleanedJson t))"

definition displayed :: "'a ui_state_scheme \<Rightarrow> bool" where
  \<comment> \<open>A result or an error is on the page: \<^verbatim>\<open>{analysisResult && ...}\<close>, \<^verbatim>\<open>{error && ...}\<close>.\<close>
  "displayed s = (analysisResult s \<noteq> None \<or> truthy (error s))"

text \<open>
  For the recogniser: a configuration is well formed when the rest of a literal it
  expects is made of the letters of \<^verbatim>\<open>true\<close>, \<^verbatim>\<open>false\<close> and \<^verbatim>\<open>null\<close>; \<open>in_string\<close> says that
  it is inside a string literal, not after a backslash; a pattern is like a fence when
  it starts with a backquote and is made of the characters of the two fences.
\<close>

fun wf_config :: "jconfig \<Rightarrow> bool" where
  "wf_config (Lit l, st) = (set l \<subseteq> set ''truefalsn'')"
| "wf_config _ = True"

definition in_string :: "jconfig \<Rightarrow> bool" where
  "in_string k = (fst k = KeyStr SNormal \<or> fst k = ValStr SNormal)"

definition fence_chars :: "char set" where
  "fence_chars = set ''```json''"

definition fence_like :: "string \<Rightarrow> bool" where
  "fence_like p = (p \<noteq> [] \<and> hd p = CHR 0x60 \<and> set p \<subseteq> fence_chars)"

section \<open>Properties\<close>

subsection \<open>Strings\<close>

lemma dropWhile_hd_not: "dropWhile P xs = a # list \<Longrightarrow> \<not> P a"
  using hd_dropWhile [of P xs] by auto

lemma trim_Nil_iff: "trim s = [] \<longleftrightarrow> (\<forall>c\<in>set s. is_ws c)"
proof -
  have "trim s = [] \<longleftrightarrow> dropWhile is_ws s = []"
  proof (cases "dropWhile is_ws s")
    case Nil
    then show ?thesis unfolding trim_def Nil by simp
  next
    case (Cons a list)
    then have "\<not> is_ws a" by (rule dropWhile_hd_not)
    with Cons show ?thesis by (auto simp: trim_def dropWhile_eq_Nil_conv)
  qed
  then show ?thesis by (simp add: dropWhile_eq_Nil_conv)
qed

lemma trim_Nil_blank: "trim s = [] \<longleftrightarrow> blank s"
  by (simp add: trim_Nil_iff blank_def list_all_iff)

subsection \<open>The invariant\<close>

lemma inv_initial: "k \<noteq> [] \<Longrightarrow> inv (initial \<lparr>apiKey = k\<rparr> speech)"
  by (simp add: inv_def initial_def)

lemma inv_boot: "boot k speech = Inr s \<Longrightarrow> inv s"
  by (auto simp: boot_def load_service_def inv_initial split: option.splits if_splits)

lemma inv_handleAnalyze: "inv s \<Longrightarrow> \<not> isAnalyzeDisabled s \<Longrightarrow> inv (handleAnalyze s)"
  by (auto simp: inv_def handleAnalyze_def isAnalyzeDisabled_def clearAnalysis_def Let_def
      analyzeHealthText_def generateContent_args_def
      split: InputMode.splits option.splits)

lemma inv_encoded:
  "inv s \<Longrightarrow> i < length (pending s) \<Longrightarrow> inv (handleAnalyze_encoded i outcome s)"
  by (cases "pending s")
     (auto simp: inv_def handleAnalyze_encoded_def handleAnalyze_catch_def drop_task_def
      analyzeHealthDocument_def generateContent_args_def Let_def
      split: option.splits prod.splits)

lemma inv_settled:
  "inv s \<Longrightarrow> i < length (pending s) \<Longrightarrow> inv (handleAnalyze_settled decode i outcome s)"
  by (cases "pending s")
     (auto simp: inv_def handleAnalyze_settled_def handleAnalyze_catch_def drop_task_def
      split: sum.splits)

lemma ui_step_inv: "ui_step s s' \<Longrightarrow> inv s \<Longrightarrow> inv s'"
  unfolding ui_step_def inv_def by metis

lemma ui_step_setInputMode: "ui_step s (setInputMode m s)"
  by (simp add: ui_step_def setInputMode_def)

lemma ui_step_setActiveTab: "ui_step s (setActiveTab t s)"
  by (simp add: ui_step_def setActiveTab_def)

lemma ui_step_handleFileChange: "ui_step s (handleFileChange f s)"
  by (cases f) (simp_all add: ui_step_def handleFileChange_def clearAnalysis_def)

lemma ui_step_previewLoaded: "ui_step s (previewLoaded r s)"
  by (simp add: ui_step_def previewLoaded_def)

lemma ui_step_handleTextChange: "ui_step s (handleTextChange v s)"
  by (simp add: ui_step_def handleTextChange_def clearAnalysis_def Let_def)

lemma ui_step_toggleRecording: "ui_step s (toggleRecording s)"
  by (simp add: ui_step_def toggleRecording_def clearAnalysis_def)

lemma ui_step_onresult: "ui_step s (onresult ev s)"
  by (simp add: ui_step_def onresult_def split: sum.split prod.split)

lemma ui_step_onerror: "ui_step s (onerror e s)"
  by (simp add: ui_step_def onerror_def)

lemma ui_step_clearInput: "ui_step s (clearInput s)"
  by (simp add: ui_step_def clearInput_def clearAnalysis_def)

lemmas ui_steps =
  ui_step_setInputMode ui_step_setActiveTab ui_step_handleFileChange ui_step_previewLoaded
  ui_step_handleTextChange ui_step_toggleRecording ui_step_onresult ui_step_onerror
  ui_step_clearInput

lemma inv_fire:
  assumes "inv s" and "fire decode e s = Some s'"
  shows "inv s'"
proof (cases e)
  case ClickAnalyze
  with assms show ?thesis
    by (auto simp: inv_handleAnalyze split: if_splits)
next
  case (EncodeDone i outcome)
  with assms show ?thesis
    by (auto simp: inv_encoded split: if_splits task.splits)
next
  case (ApiDone i outcome)
  with assms show ?thesis
    by (auto simp: inv_settled split: if_splits task.splits)
qed (use assms in \<open>auto intro: ui_step_inv [OF _ assms(1)] ui_steps\<close>)

lemma reachable_inv: "reachable decode s \<Longrightarrow> inv s"
  by (induction rule: reachable.induct) (auto intro: inv_boot inv_fire)

lemma reachable_run:
  "reachable decode s \<Longrightarrow> run decode es s = Some s' \<Longrightarrow> reachable decode s'"
  by (induction es arbitrary: s) (auto split: option.splits intro: reachable_fire)

lemma reachable_initial: "k \<noteq> [] \<Longrightarrow> reachable decode (initial \<lparr>apiKey = k\<rparr> speech)"
  by (rule reachable_boot [of "Some k" speech]) (simp add: boot_def load_service_def)


lemma run_append:
  "run decode (es @ fs) s =
     (case run decode es s of None \<Rightarrow> None | Some s' \<Rightarrow> run decode fs s')"
  by (induction es arbitrary: s) (auto split: option.splits)

lemma run_snoc: "run decode es s = Some s' \<Longrightarrow> run decode (es @ [e]) s = fire decode e s'"
  by (simp add: run_append split: option.splits)

lemma typed_and_clicked:
  "run decode [SetInputMode Text, TextChange ''Rx'', ClickAnalyze] (initial \<lparr>apiKey = ''k''\<rparr> True)
   = Some ((initial \<lparr>apiKey = ''k''\<rparr> True)
       \<lparr>inputText := ''Rx'', inputMode := Text, isLoading := True,
        pending := [AwaitApi (analyzeHealthText \<lparr>apiKey = ''k''\<rparr> ''Rx'')],
        sent := [analyzeHealthText \<lparr>apiKey = ''k''\<rparr> ''Rx'']\<rparr>)"
  by (simp add: initial_def setInputMode_def handleTextChange_def truthy_def isAnalyzeDisabled_def
      trim_def is_ws_def handleAnalyze_def clearAnalysis_def Let_def)

subsection \<open>The trigger and missing input\<close>

text \<open>
  Claim C4. In a state with no selected file and no character other than whitespace in
  the text buffer, \<open>isAnalyzeDisabled\<close> is true, whatever the input mode is.
\<close>

theorem isAnalyzeDisabled_without_input:
  assumes "file' s = None" and "blank (inputText s)"
  shows "isAnalyzeDisabled s \<and> isAnalyzeDisabled (s\<lparr>inputMode := m\<rparr>)"
  using assms
  by (cases m; cases "inputMode s") (simp_all add: isAnalyzeDisabled_def trim_Nil_blank)

theorem isAnalyzeDisabled_without_input_witness:
  "file' (initial \<lparr>apiKey = ''k''\<rparr> True\<lparr>inputText := '' \<newline> ''\<rparr>) = None
   \<and> blank (inputText (initial \<lparr>apiKey = ''k''\<rparr> True\<lparr>inputText := '' \<newline> ''\<rparr>))
   \<and> isAnalyzeDisabled (initial \<lparr>apiKey = ''k''\<rparr> True\<lparr>inputText := '' \<newline> ''\<rparr>)
   \<and> isAnalyzeDisabled (initial \<lparr>apiKey = ''k''\<rparr> True\<lparr>inputText := '' \<newline> '', inputMode := Voice\<rparr>)"
  using isAnalyzeDisabled_without_input
    [of "initial \<lparr>apiKey = ''k''\<rparr> True\<lparr>inputText := '' \<newline> ''\<rparr>" Voice]
  by (simp add: initial_def is_ws_def blank_def)

text \<open>
  Claim C5. When \<open>handleAnalyze\<close> is called and the input its mode needs is missing
  (upload mode without a file, text or voice mode with a blank buffer), it sets the
  local message and hands no request to the service: the log of requests and the
  suspended calls are as before, and nothing is loading.
\<close>

theorem handleAnalyze_missing_input:
  assumes "(inputMode s = Upload \<and> file' s = None)
           \<or> (inputMode s \<noteq> Upload \<and> blank (inputText s))"
  shows "error (handleAnalyze s) = Some no_input_msg
         \<and> sent (handleAnalyze s) = sent s \<and> pending (handleAnalyze s) = pending s
         \<and> \<not> isLoading (handleAnalyze s) \<and> analysisResult (handleAnalyze s) = None"
  using assms
  by (cases "inputMode s")
     (auto simp: handleAnalyze_def clearAnalysis_def trim_Nil_blank Let_def no_input_msg_def)

theorem handleAnalyze_missing_input_witness:
  "blank (inputText (initial \<lparr>apiKey = ''k''\<rparr> True\<lparr>inputMode := Voice, inputText := ''  ''\<rparr>))
   \<and> error (handleAnalyze (initial \<lparr>apiKey = ''k''\<rparr> True\<lparr>inputMode := Voice, inputText := ''  ''\<rparr>))
       = Some ''Please provide input before analyzing.''
   \<and> sent (handleAnalyze (initial \<lparr>apiKey = ''k''\<rparr> True\<lparr>inputMode := Voice, inputText := ''  ''\<rparr>)) = []
   \<and> error (handleAnalyze (initial \<lparr>apiKey = ''k''\<rparr> True)) = Some ''Please provide input before analyzing.''
   \<and> sent (handleAnalyze (initial \<lparr>apiKey = ''k''\<rparr> True)) = []"
  using handleAnalyze_missing_input
    [of "initial \<lparr>apiKey = ''k''\<rparr> True\<lparr>inputMode := Voice, inputText := ''  ''\<rparr>"]
    handleAnalyze_missing_input [of "initial \<lparr>apiKey = ''k''\<rparr> True"]
  by (simp add: initial_def is_ws_def blank_def no_input_msg_def)

subsection \<open>Dictation\<close>

lemma onresult_loop_eq:
  "onresult_loop rs i a b =
     (if list_all (\<lambda>r. alternatives r \<noteq> []) (drop i rs)
      then Inr (a @ concat (map first_transcript (filter (\<lambda>r. \<not> isFinal r) (drop i rs))),
                b @ concat (map first_transcript (filter isFinal (drop i rs))))
      else Inl TypeError)"
proof (induction rs i a b rule: onresult_loop.induct)
  case (1 rs i a b)
  show ?case
  proof (cases "i < length rs")
    case False
    then show ?thesis by (subst onresult_loop.simps) simp
  next
    case True
    then have d: "drop i rs = rs ! i # drop (Suc i) rs"
      by (simp add: Cons_nth_drop_Suc)
    show ?thesis
    proof (cases "alternatives (rs ! i)")
      case Nil
      with True d show ?thesis by (subst onresult_loop.simps) simp
    next
      case (Cons t ts)
      show ?thesis
      proof (cases "isFinal (rs ! i)")
        case f: True
        from "1.IH"(1) [OF True Cons f] True Cons f d show ?thesis
          by (subst onresult_loop.simps) (simp add: first_transcript_def)
      next
        case f: False
        from "1.IH"(2) [OF True Cons f] True Cons f d show ?thesis
          by (subst onresult_loop.simps) (simp add: first_transcript_def)
      qed
    qed
  qed
qed

text \<open>
  Claim C7. After a result event the buffer is the old buffer followed by the segments
  of the results that are final, from \<open>resultIndex\<close> on and in their order; the results
  that are not final add nothing, and the old buffer stays as the beginning of the new
  one. (When a result from \<open>resultIndex\<close> on has no alternative the handler throws and
  the buffer is as before.)
\<close>

theorem onresult_appends_final:
  "inputText (onresult ev s) =
     (if list_all (\<lambda>r. alternatives r \<noteq> []) (drop (resultIndex ev) (results ev))
      then inputText s
           @ concat (map first_transcript (filter isFinal (drop (resultIndex ev) (results ev))))
      else inputText s)
   \<and> prefix (inputText s) (inputText (onresult ev s))"
  by (simp add: onresult_def onresult_loop_eq)

theorem onresult_appends_final_witness:
  "inputText (onresult
      \<lparr>resultIndex = 1,
       results = [\<lparr>isFinal = True, alternatives = [''old '']\<rparr>,
                  \<lparr>isFinal = True, alternatives = [''take '', ''cake '']\<rparr>,
                  \<lparr>isFinal = False, alternatives = [''asp'']\<rparr>,
                  \<lparr>isFinal = True, alternatives = [''two'']\<rparr>]\<rparr>
      (initial \<lparr>apiKey = ''k''\<rparr> True\<lparr>inputText := ''Rx: ''\<rparr>))
   = ''Rx: take two''"
  using onresult_appends_final
    [of "\<lparr>resultIndex = 1,
       results = [\<lparr>isFinal = True, alternatives = [''old '']\<rparr>,
                  \<lparr>isFinal = True, alternatives = [''take '', ''cake '']\<rparr>,
                  \<lparr>isFinal = False, alternatives = [''asp'']\<rparr>,
                  \<lparr>isFinal = True, alternatives = [''two'']\<rparr>]\<rparr>"
        "initial \<lparr>apiKey = ''k''\<rparr> True\<lparr>inputText := ''Rx: ''\<rparr>"]
  by (simp add: initial_def first_transcript_def)

subsection \<open>One analysis at a time\<close>

text \<open>
  Claim C8. In every state the page can reach, at most one call of \<open>handleAnalyze\<close> is
  suspended (waiting for the reader or for the service), the loading flag is set
  exactly while there is one, and while it is set the trigger is disabled and its click
  is not an event: no run of events has two analyses in flight.
\<close>

theorem one_request_outstanding:
  assumes "reachable decode s"
  shows "length (pending s) \<le> 1 \<and> (isLoading s \<longleftrightarrow> pending s \<noteq> [])
         \<and> (isLoading s \<longrightarrow> isAnalyzeDisabled s \<and> fire decode ClickAnalyze s = None)"
  using reachable_inv [OF assms] by (simp add: inv_def isAnalyzeDisabled_def)

theorem one_request_outstanding_witness:
  "(case run decode_empty [SetInputMode Text, TextChange ''Rx'', ClickAnalyze]
           (initial \<lparr>apiKey = ''k''\<rparr> True) of
      None \<Rightarrow> False
    | Some s \<Rightarrow> length (pending s) = 1 \<and> isLoading s \<and> isAnalyzeDisabled s
        \<and> fire decode_empty ClickAnalyze s = None)"
proof -
  let ?s = "(initial \<lparr>apiKey = ''k''\<rparr> True)
       \<lparr>inputText := ''Rx'', inputMode := Text, isLoading := True,
        pending := [AwaitApi (analyzeHealthText \<lparr>apiKey = ''k''\<rparr> ''Rx'')],
        sent := [analyzeHealthText \<lparr>apiKey = ''k''\<rparr> ''Rx'']\<rparr>"
  have "reachable decode_empty ?s"
    by (rule reachable_run [OF reachable_initial typed_and_clicked]) simp
  from one_request_outstanding [OF this] show ?thesis
    unfolding typed_and_clicked by (simp add: initial_def)
qed

subsection \<open>Failure of the call\<close>

lemma performAnalysis_failed:
  "call_failed outcome \<Longrightarrow> \<exists>e. performAnalysis decode outcome = Inl e"
  by (cases outcome rule: call_failed.cases)
     (auto simp: performAnalysis_def performAnalysis_try_def JSON_parse_def)

text \<open>
  Claim C2. When the call of an analysis throws, resolves with no text or the empty
  text, or resolves with a text that cannot be parsed, the state the page is left in
  has the one generic message as its error and no result, so no result is shown; this
  holds in every reachable state, whatever happened while the call was awaited. The
  text that is parsed is the body with its code fences deleted and trimmed
  (\<open>cleanedJson\<close>), so it is that text which cannot be parsed.
\<close>

theorem analysis_failure_generic_error:
  assumes "reachable decode s" and "fire decode (ApiDone i outcome) s = Some s'"
    and "call_failed outcome"
  shows "error s' = Some analysisFailed \<and> analysisResult s' = None \<and> resultView s' = None
         \<and> \<not> isLoading s'"
proof -
  from assms(2) have i: "i < length (pending s)"
    and s': "s' = handleAnalyze_settled decode i outcome s"
    by (auto split: if_splits task.splits)
  from reachable_inv [OF assms(1)] i have "analysisResult s = None"
    by (auto simp: inv_def)
  moreover from performAnalysis_failed [OF assms(3)]
  obtain e where "performAnalysis decode outcome = Inl e" ..
  ultimately show ?thesis
    by (simp add: s' handleAnalyze_settled_def handleAnalyze_catch_def drop_task_def resultView_def)
qed

lemma not_json: "\<not> json_valid (cleanedJson ''I cannot read this.'')"
  by code_simp

theorem analysis_failure_generic_error_witness:
  "map_option error (run decode_empty
      [SetInputMode Text, TextChange ''Rx'', ClickAnalyze, ApiDone 0 (Rejected (Error ''quota''))]
      (initial \<lparr>apiKey = ''k''\<rparr> True)) = Some (Some analysisFailed)
   \<and> map_option analysisResult (run decode_empty
      [SetInputMode Text, TextChange ''Rx'', ClickAnalyze, ApiDone 0 (Resolved None)]
      (initial \<lparr>apiKey = ''k''\<rparr> True)) = Some None
   \<and> map_option error (run decode_empty
      [SetInputMode Text, TextChange ''Rx'', ClickAnalyze,
       ApiDone 0 (Resolved (Some ''I cannot read this.''))]
      (initial \<lparr>apiKey = ''k''\<rparr> True)) = Some (Some analysisFailed)"
proof -
  let ?d = decode_empty
  let ?s = "(initial \<lparr>apiKey = ''k''\<rparr> True)
       \<lparr>inputText := ''Rx'', inputMode := Text, isLoading := True,
        pending := [AwaitApi (analyzeHealthText \<lparr>apiKey = ''k''\<rparr> ''Rx'')],
        sent := [analyzeHealthText \<lparr>apiKey = ''k''\<rparr> ''Rx'']\<rparr>"
  have r: "reachable ?d ?s"
    by (rule reachable_run [OF reachable_initial typed_and_clicked]) simp
  have f: "fire ?d (ApiDone 0 outcome) ?s = Some (handleAnalyze_settled ?d 0 outcome ?s)"
    for outcome
    by simp
  have split: "run ?d ([SetInputMode Text, TextChange ''Rx'', ClickAnalyze] @ [ApiDone 0 outcome])
           (initial \<lparr>apiKey = ''k''\<rparr> True) = Some (handleAnalyze_settled ?d 0 outcome ?s)"
    for outcome
    by (simp only: run_snoc [OF typed_and_clicked] f)
  from analysis_failure_generic_error [OF r f, of "Rejected (Error ''quota'')"]
    analysis_failure_generic_error [OF r f, of "Resolved None"]
    analysis_failure_generic_error [OF r f, of "Resolved (Some ''I cannot read this.'')"]
    not_json
  show ?thesis using split by simp
qed

subsection \<open>The key of the service\<close>

text \<open>
  Claim C10. With \<^verbatim>\<open>API_KEY\<close> not set, loading the service module throws the error
  \<^verbatim>\<open>API_KEY environment variable not set\<close>, and so does loading the page; in every state the
  page reaches, the service holds a key that is not empty and every request that
  \<open>analyzeHealthDocument\<close> or \<open>analyzeHealthText\<close> has sent carries it.
\<close>

theorem api_key_required:
  "load_service None = Inl (Error ''API_KEY environment variable not set'')
   \<and> boot None speech = Inl (Error ''API_KEY environment variable not set'')
   \<and> (reachable decode s \<longrightarrow>
        apiKey (ai s) \<noteq> [] \<and> list_all (\<lambda>rq. key rq = apiKey (ai s)) (sent s))"
  using reachable_inv [of decode s] by (simp add: load_service_def boot_def inv_def)

theorem api_key_required_witness:
  "load_service None = Inl (Error ''API_KEY environment variable not set'')
   \<and> map_option (\<lambda>s. map key (sent s)) (run decode_empty
        [SetInputMode Text, TextChange ''Rx'', ClickAnalyze] (initial \<lparr>apiKey = ''k''\<rparr> True))
       = Some [''k'']"
proof -
  let ?s = "(initial \<lparr>apiKey = ''k''\<rparr> True)
       \<lparr>inputText := ''Rx'', inputMode := Text, isLoading := True,
        pending := [AwaitApi (analyzeHealthText \<lparr>apiKey = ''k''\<rparr> ''Rx'')],
        sent := [analyzeHealthText \<lparr>apiKey = ''k''\<rparr> ''Rx'']\<rparr>"
  have "reachable decode_empty ?s"
    by (rule reachable_run [OF reachable_initial typed_and_clicked]) simp
  with api_key_required [of True decode_empty ?s] show ?thesis
    unfolding typed_and_clicked by (simp add: initial_def)
qed

subsection \<open>What a submission sends\<close>

lemma split_js_none: "c \<notin> set a \<Longrightarrow> split_js c a = [a]"
  by (induction a) auto

lemma split_js_append: "c \<notin> set a \<Longrightarrow> split_js c (a @ c # b) = a # split_js c b"
  by (induction a) auto

lemma fileToBase64_data_url:
  assumes "CHR '';'' \<notin> set m" "CHR '':'' \<notin> set m" "CHR '','' \<notin> set m" "CHR '','' \<notin> set d"
  shows "fileToBase64 (''data:'' @ m @ '';base64,'' @ d) = (Some m, Some d)"
proof -
  have a: "split_js CHR '';'' (''data:'' @ m @ '';base64,'' @ d)
           = (''data:'' @ m) # split_js CHR '';'' (''base64,'' @ d)"
    using split_js_append [of "CHR '';''" "''data:'' @ m" "''base64,'' @ d"] assms(1) by simp
  have b: "split_js CHR '':'' (''data:'' @ m) = [''data'', m]"
    using split_js_append [of "CHR '':''" "''data''" m] split_js_none [OF assms(2)] by simp
  have c: "split_js CHR '','' (''data:'' @ m @ '';base64,'' @ d) = [''data:'' @ m @ '';base64'', d]"
    using split_js_append [of "CHR '',''" "''data:'' @ m @ '';base64''" d]
      split_js_none [OF assms(4)] assms(3) by simp
  have "fileToBase64 (''data:'' @ m @ '';base64,'' @ d)
        = (index_js [''data'', m] 1, index_js [''data:'' @ m @ '';base64'', d] 1)"
    by (simp only: fileToBase64_def a b c list.case)
  then show ?thesis by (simp add: index_js_def)
qed

text \<open>
  Claim C1. A submission in upload mode with a selected file first waits for the
  encoding of that file and sends nothing before; when the reader fails nothing is
  sent, and when it delivers a data URL exactly one request is sent, whose parts are
  the image (the data and the mime type \<open>fileToBase64\<close> reads off the URL, which for
  \<^verbatim>\<open>data:<mime>;base64,<data>\<close> are \<open><data>\<close> and \<open><mime>\<close>) and then the prompt. A
  submission in text or voice mode with a buffer that is not blank sends exactly one
  request, whose only part is a text part: the prompt with the buffer inside it.
\<close>

theorem submission_request_contents:
  "(inputMode s = Upload \<and> file' s = Some f \<longrightarrow>
      pending (handleAnalyze s) = pending s @ [AwaitEncode f]
      \<and> sent (handleAnalyze s) = sent s
      \<and> sent (handleAnalyze_encoded (length (pending s)) None (handleAnalyze s)) = sent s
      \<and> (\<exists>rq. sent (handleAnalyze_encoded (length (pending s)) (Some url) (handleAnalyze s))
                  = sent s @ [rq]
              \<and> parts (body rq)
                  = [InlineData (snd (fileToBase64 url)) (fst (fileToBase64 url)),
                     TextPart documentPrompt])
      \<and> (CHR '';'' \<notin> set m \<and> CHR '':'' \<notin> set m \<and> CHR '','' \<notin> set m \<and> CHR '','' \<notin> set d
           \<and> url = ''data:'' @ m @ '';base64,'' @ d
           \<longrightarrow> fileToBase64 url = (Some m, Some d)))
   \<and> ((inputMode s = Text \<or> inputMode s = Voice) \<and> \<not> blank (inputText s) \<longrightarrow>
        (\<exists>rq. sent (handleAnalyze s) = sent s @ [rq]
              \<and> parts (body rq) = [TextPart (textPrompt (inputText s))]
              \<and> list_all is_text_part (parts (body rq))
              \<and> sublist (inputText s) (textPrompt (inputText s))))"
proof (intro conjI impI)
  assume u: "inputMode s = Upload \<and> file' s = Some f"
  then have h: "handleAnalyze s
      = (clearAnalysis s)\<lparr>isLoading := True, pending := pending s @ [AwaitEncode f]\<rparr>"
    by (simp add: handleAnalyze_def Let_def clearAnalysis_def)
  show "pending (handleAnalyze s) = pending s @ [AwaitEncode f]"
    and "sent (handleAnalyze s) = sent s"
    by (simp_all add: h clearAnalysis_def)
  show "sent (handleAnalyze_encoded (length (pending s)) None (handleAnalyze s)) = sent s"
    by (simp add: h clearAnalysis_def handleAnalyze_encoded_def handleAnalyze_catch_def
        drop_task_def)
  show "\<exists>rq. sent (handleAnalyze_encoded (length (pending s)) (Some url) (handleAnalyze s))
                  = sent s @ [rq]
              \<and> parts (body rq)
                  = [InlineData (snd (fileToBase64 url)) (fst (fileToBase64 url)),
                     TextPart documentPrompt]"
    by (simp add: h clearAnalysis_def handleAnalyze_encoded_def Let_def analyzeHealthDocument_def
        generateContent_args_def split: prod.splits)
next
  assume "CHR '';'' \<notin> set m \<and> CHR '':'' \<notin> set m \<and> CHR '','' \<notin> set m \<and> CHR '','' \<notin> set d
           \<and> url = ''data:'' @ m @ '';base64,'' @ d"
  then show "fileToBase64 url = (Some m, Some d)"
    using fileToBase64_data_url [of m d] by simp
next
  assume t: "(inputMode s = Text \<or> inputMode s = Voice) \<and> \<not> blank (inputText s)"
  then have "trim (inputText s) \<noteq> []" by (simp add: trim_Nil_blank)
  with t have h: "handleAnalyze s
      = (clearAnalysis s)\<lparr>isLoading := True,
           pending := pending s @ [AwaitApi (analyzeHealthText (ai s) (inputText s))],
           sent := sent s @ [analyzeHealthText (ai s) (inputText s)]\<rparr>"
    by (auto simp: handleAnalyze_def Let_def clearAnalysis_def)
  have "sublist (inputText s) (textPrompt (inputText s))"
    unfolding textPrompt_def sublist_def by (metis append.assoc)
  then show "\<exists>rq. sent (handleAnalyze s) = sent s @ [rq]
              \<and> parts (body rq) = [TextPart (textPrompt (inputText s))]
              \<and> list_all is_text_part (parts (body rq))
              \<and> sublist (inputText s) (textPrompt (inputText s))"
    by (simp add: h clearAnalysis_def analyzeHealthText_def generateContent_args_def)
qed

theorem submission_request_contents_witness:
  "map (\<lambda>rq. parts (body rq))
      (sent (handleAnalyze_encoded 0 (Some ''data:image/png;base64,iVBORw0KGgo='')
         (handleAnalyze
            (initial \<lparr>apiKey = ''k''\<rparr> True
               \<lparr>file' := Some \<lparr>fileName = ''rx.png'', fileType = ''image/png''\<rparr>\<rparr>))))
     = [[InlineData (Some ''iVBORw0KGgo='') (Some ''image/png''), TextPart documentPrompt]]
   \<and> map (\<lambda>rq. parts (body rq))
      (sent (handleAnalyze
         (initial \<lparr>apiKey = ''k''\<rparr> True\<lparr>inputMode := Voice, inputText := ''Rx: aspirin''\<rparr>)))
     = [[TextPart (textPrompt ''Rx: aspirin'')]]"
proof -
  have b: "\<not> blank ''Rx: aspirin''"
    by (simp add: blank_def is_ws_def)
  from submission_request_contents
    [of "initial \<lparr>apiKey = ''k''\<rparr> True
           \<lparr>file' := Some \<lparr>fileName = ''rx.png'', fileType = ''image/png''\<rparr>\<rparr>"
        "\<lparr>fileName = ''rx.png'', fileType = ''image/png''\<rparr>"
        "''data:image/png;base64,iVBORw0KGgo=''" "''image/png''" "''iVBORw0KGgo=''"]
    submission_request_contents
    [of "initial \<lparr>apiKey = ''k''\<rparr> True\<lparr>inputMode := Voice, inputText := ''Rx: aspirin''\<rparr>"]
    b
  show ?thesis
    by (auto simp: initial_def)
qed

subsection \<open>Clearing what is displayed\<close>

lemma analysed:
  "run decode_empty
     [SetInputMode Text, TextChange ''Rx'', ClickAnalyze, ApiDone 0 (Resolved (Some no_findings_json))]
     (initial \<lparr>apiKey = ''k''\<rparr> True)
   = Some ((initial \<lparr>apiKey = ''k''\<rparr> True)
       \<lparr>inputText := ''Rx'', inputMode := Text, analysisResult := Some no_findings,
        sent := [analyzeHealthText \<lparr>apiKey = ''k''\<rparr> ''Rx'']\<rparr>)"
proof -
  have j: "json_valid (cleanedJson no_findings_json)" by code_simp
  have n: "no_findings_json \<noteq> []" by (simp add: no_findings_json_def)
  have "run decode_empty
     ([SetInputMode Text, TextChange ''Rx'', ClickAnalyze] @ [ApiDone 0 (Resolved (Some no_findings_json))])
     (initial \<lparr>apiKey = ''k''\<rparr> True)
   = Some ((initial \<lparr>apiKey = ''k''\<rparr> True)
       \<lparr>inputText := ''Rx'', inputMode := Text, analysisResult := Some no_findings,
        sent := [analyzeHealthText \<lparr>apiKey = ''k''\<rparr> ''Rx'']\<rparr>)"
    unfolding run_snoc [OF typed_and_clicked]
    by (simp add: handleAnalyze_settled_def performAnalysis_def performAnalysis_try_def
        JSON_parse_def j n drop_task_def initial_def decode_empty_def)
  then show ?thesis by simp
qed

text \<open>
  Claim C3, as amended. In a state that displays a result or an error, a change of the
  text and the selection of a file leave no result and no error; a switch of the input
  mode changes the mode only, so the result and the error stay displayed. (As stated,
  with the switch of the mode clearing them too, the claim fails: see the
  counterexample.)
\<close>

theorem editing_clears_analysis:
  assumes "displayed s"
  shows "analysisResult (handleTextChange v s) = None \<and> error (handleTextChange v s) = None
         \<and> analysisResult (handleFileChange (Some f) s) = None
         \<and> error (handleFileChange (Some f) s) = None
         \<and> analysisResult (setInputMode m s) = analysisResult s
         \<and> error (setInputMode m s) = error s
         \<and> displayed (setInputMode m s)"
  using assms
  by (simp add: displayed_def handleTextChange_def handleFileChange_def setInputMode_def
      clearAnalysis_def Let_def)

theorem editing_clears_analysis_witness:
  "displayed ((initial \<lparr>apiKey = ''k''\<rparr> True)
       \<lparr>inputText := ''Rx'', inputMode := Text, analysisResult := Some no_findings,
        sent := [analyzeHealthText \<lparr>apiKey = ''k''\<rparr> ''Rx'']\<rparr>)
   \<and> map_option analysisResult (run decode_empty
     [SetInputMode Text, TextChange ''Rx'', ClickAnalyze, ApiDone 0 (Resolved (Some no_findings_json)),
      TextChange ''Rx: ''] (initial \<lparr>apiKey = ''k''\<rparr> True)) = Some None"
proof -
  let ?s = "(initial \<lparr>apiKey = ''k''\<rparr> True)
       \<lparr>inputText := ''Rx'', inputMode := Text, analysisResult := Some no_findings,
        sent := [analyzeHealthText \<lparr>apiKey = ''k''\<rparr> ''Rx'']\<rparr>"
  have d: "displayed ?s" by (simp add: displayed_def)
  have "run decode_empty
     ([SetInputMode Text, TextChange ''Rx'', ClickAnalyze, ApiDone 0 (Resolved (Some no_findings_json))]
      @ [TextChange ''Rx: ''])
     (initial \<lparr>apiKey = ''k''\<rparr> True) = Some (handleTextChange ''Rx: '' ?s)"
    unfolding run_snoc [OF analysed] by simp
  with d editing_clears_analysis [OF d, of "''Rx: ''"] show ?thesis
    by simp
qed

theorem setInputMode_keeps_result_counterexample:
  "map_option analysisResult (run decode_empty
     [SetInputMode Text, TextChange ''Rx'', ClickAnalyze, ApiDone 0 (Resolved (Some no_findings_json)),
      SetInputMode Voice]
     (initial \<lparr>apiKey = ''k''\<rparr> True)) = Some (Some no_findings)
   \<and> map_option error (run decode_empty [SetInputMode Voice, ToggleRecording, SetInputMode Text]
     (initial \<lparr>apiKey = ''k''\<rparr> False))
     = Some (Some ''Speech recognition is not supported in your browser.'')"
proof -
  have "run decode_empty
     ([SetInputMode Text, TextChange ''Rx'', ClickAnalyze, ApiDone 0 (Resolved (Some no_findings_json))]
      @ [SetInputMode Voice])
     (initial \<lparr>apiKey = ''k''\<rparr> True)
     = Some (setInputMode Voice ((initial \<lparr>apiKey = ''k''\<rparr> True)
       \<lparr>inputText := ''Rx'', inputMode := Text, analysisResult := Some no_findings,
        sent := [analyzeHealthText \<lparr>apiKey = ''k''\<rparr> ''Rx'']\<rparr>))"
    unfolding run_snoc [OF analysed] by simp
  then show ?thesis
    by (simp add: setInputMode_def toggleRecording_def initial_def)
qed

subsection \<open>The result view\<close>

lemma riskLevel_str_inj: "riskLevel_str a = riskLevel_str b \<longleftrightarrow> a = b"
  by (cases a; cases b) simp_all

lemma riskColorMap_inj: "riskColorMap a = riskColorMap b \<longleftrightarrow> a = b"
  by (cases a; cases b) simp_all

lemma labStatusClass_inj: "labStatusClass a = labStatusClass b \<longleftrightarrow> a = b"
  by (cases a; cases b) (simp_all add: labStatusClass_def labStatusColorMap_def)

lemma errorCard_inj: "errorCard a = errorCard b \<longleftrightarrow> a = b"
  by (cases a; cases b) (auto simp: errorCard_def riskLevel_str_inj)

lemma drugCard_inj: "drugCard a = drugCard b \<longleftrightarrow> a = b"
  by (cases a; cases b) (auto simp: drugCard_def drugField_def)

lemma labRow_inj: "labRow a = labRow b \<longleftrightarrow> a = b"
  by (cases a; cases b) (auto simp: labRow_def labStatusClass_inj)

lemma map_inj_iff: "(\<And>a b. f a = f b \<longleftrightarrow> a = b) \<Longrightarrow> map f xs = map f ys \<longleftrightarrow> xs = ys"
  by (rule inj_map_eq_map) (simp add: inj_on_def)

text \<open>
  Claim C6. For every result, the view has exactly the three tab buttons errors, drugs
  and labs, in this order, whichever tab is active, and shows the panel of the active
  tab. The panel of a tab holds, after its heading, one card (for the labs one table
  row) for each element of its array, in the order of the array, and the note of the
  tab when its array is empty; the cards determine the elements, so two arrays are
  shown alike only when they are equal.
\<close>

theorem result_view_three_tabs:
  "tab_buttons (renderResult r active) = [Errors, Drugs, Labs]
   \<and> renderResult r active
       = El ''div'' ''mt-8 bg-white p-4 sm:p-6 rounded-xl shadow-lg''
           [tabsNav active, El ''div'' [] [tabPanel r active]]
   \<and> tabPanel r Errors
       = El ''div'' ''space-y-4''
           (El ''h3'' ''text-lg font-semibold text-slate-800'' [Txt ''Potential Medication Errors'']
            # (if potentialErrors r = [] then [noErrorsNote]
               else map errorCard (potentialErrors r)))
   \<and> tabPanel r Drugs
       = El ''div'' ''space-y-6''
           (El ''h3'' ''text-lg font-semibold text-slate-800'' [Txt ''Prescribed Drug Information'']
            # (if drugInformation r = [] then [noDrugsNote]
               else map drugCard (drugInformation r)))
   \<and> tabPanel r Labs
       = El ''div'' []
           [El ''h3'' ''text-lg font-semibold text-slate-800 mb-4'' [Txt ''Lab Value Interpretation''],
            if labInterpretation r = [] then noLabsNote
            else El ''div'' ''overflow-x-auto''
                   [El ''table'' ''min-w-full divide-y divide-slate-200''
                      [labsHeader,
                       El ''tbody'' ''bg-white divide-y divide-slate-200''
                         (map labRow (labInterpretation r))]]]
   \<and> (map errorCard es = map errorCard es' \<longleftrightarrow> es = es')
   \<and> (map drugCard ds = map drugCard ds' \<longleftrightarrow> ds = ds')
   \<and> (map labRow ls = map labRow ls' \<longleftrightarrow> ls = ls')"
proof (intro conjI)
  show "tab_buttons (renderResult r active) = [Errors, Drugs, Labs]"
    by (cases active)
       (simp_all add: renderResult_def tabsNav_def errorsPanel_def drugsPanel_def labsPanel_def
          errorCard_def drugCard_def drugField_def labRow_def labsHeader_def noErrorsNote_def
          noDrugsNote_def noLabsNote_def)
qed (simp_all add: renderResult_def errorsPanel_def drugsPanel_def labsPanel_def
      map_inj_iff errorCard_inj drugCard_inj labRow_inj)

theorem result_view_three_tabs_witness:
  "tab_buttons (renderResult
      \<lparr>potentialErrors = [\<lparr>errorType = ''Incorrect Dose'', riskLevel = RiskHigh,
                            error' = ''Metformin 5000mg'', explanation = ''Above the maximum''\<rparr>],
       drugInformation = [], labInterpretation = []\<rparr> Drugs) = [Errors, Drugs, Labs]
   \<and> tabPanel
      \<lparr>potentialErrors = [\<lparr>errorType = ''Incorrect Dose'', riskLevel = RiskHigh,
                            error' = ''Metformin 5000mg'', explanation = ''Above the maximum''\<rparr>],
       drugInformation = [], labInterpretation = []\<rparr> Drugs
     = El ''div'' ''space-y-6''
         [El ''h3'' ''text-lg font-semibold text-slate-800'' [Txt ''Prescribed Drug Information''],
          noDrugsNote]
   \<and> tabPanel
      \<lparr>potentialErrors = [\<lparr>errorType = ''Incorrect Dose'', riskLevel = RiskHigh,
                            error' = ''Metformin 5000mg'', explanation = ''Above the maximum''\<rparr>],
       drugInformation = [], labInterpretation = []\<rparr> Errors
     = El ''div'' ''space-y-4''
         [El ''h3'' ''text-lg font-semibold text-slate-800'' [Txt ''Potential Medication Errors''],
          errorCard \<lparr>errorType = ''Incorrect Dose'', riskLevel = RiskHigh,
                            error' = ''Metformin 5000mg'', explanation = ''Above the maximum''\<rparr>]"
proof -
  let ?r = "\<lparr>potentialErrors = [\<lparr>errorType = ''Incorrect Dose'', riskLevel = RiskHigh,
                            error' = ''Metformin 5000mg'', explanation = ''Above the maximum''\<rparr>],
       drugInformation = [], labInterpretation = []\<rparr>"
  note t = result_view_three_tabs [of ?r Drugs]
  from t have "tab_buttons (renderResult ?r Drugs) = [Errors, Drugs, Labs]"
    by (rule conjunct1)
  moreover from t have "tabPanel ?r Drugs
     = El ''div'' ''space-y-6''
         [El ''h3'' ''text-lg font-semibold text-slate-800'' [Txt ''Prescribed Drug Information''],
          noDrugsNote]"
    by simp
  moreover from t have "tabPanel ?r Errors
     = El ''div'' ''space-y-4''
         [El ''h3'' ''text-lg font-semibold text-slate-800'' [Txt ''Potential Medication Errors''],
          errorCard \<lparr>errorType = ''Incorrect Dose'', riskLevel = RiskHigh,
                            error' = ''Metformin 5000mg'', explanation = ''Above the maximum''\<rparr>]"
    by simp
  ultimately show ?thesis by (intro conjI)
qed

subsection \<open>Code fences around the response\<close>

lemma jrun_Nil [simp]: "jrun k [] = k"
  by (simp add: jrun_def)

lemma jrun_Cons [simp]: "jrun k (c # s) = jrun (jstep k c) s"
  by (simp add: jrun_def)

lemma jrun_append: "jrun k (s @ t) = jrun (jrun k s) t"
  by (simp add: jrun_def)

lemma jrun_Dead [simp]: "jrun (Dead, st) s = (Dead, st)"
  by (induction s) simp_all

lemma wf_value_start: "wf_config (value_start st c)"
  by (simp add: value_start_def)

lemma wf_after_value: "wf_config (after_value st c)"
  by (simp add: after_value_def split: list.splits ctx.splits)

lemma wf_jstep: "wf_config k \<Longrightarrow> wf_config (jstep k c)"
  by (cases "(k, c)" rule: jstep.cases)
     (auto simp: wf_value_start wf_after_value split: option.splits list.splits)

lemma str_step_backtick: "q \<noteq> SNormal \<Longrightarrow> str_step q (CHR 0x60) = None"
  by (cases q) (simp_all add: is_hex_def)

lemma num_step_backtick: "num_step q (CHR 0x60) = None"
  by (cases q) (simp_all add: is_digit_def)

lemma jstep_backtick:
  assumes "wf_config k" and "\<not> in_string k"
  shows "fst (jstep k (CHR 0x60)) = Dead"
  using assms
  by (cases "(k, CHR 0x60)" rule: jstep.cases)
     (auto simp: in_string_def json_ws_def value_start_def after_value_def is_digit_def
        str_step_backtick num_step_backtick split: list.splits ctx.splits)


lemma jstep_in_string:
  assumes "in_string k" and "c \<in> fence_chars"
  shows "jstep k c = k"
  using assms
  by (cases k) (auto simp: in_string_def fence_chars_def is_control_def)

lemma jrun_in_string:
  assumes "in_string k" and "set s \<subseteq> fence_chars"
  shows "jrun k s = k"
  using assms by (induction s) (simp_all add: jstep_in_string)

lemma in_string_not_accepting: "in_string k \<Longrightarrow> \<not> accepting k"
  by (cases k) (auto simp: in_string_def)

lemma dead_not_accepting: "fst k = Dead \<Longrightarrow> \<not> accepting (jrun k s)"
  by (cases k) simp

lemma accepted_backtick:
  assumes "wf_config k" and "accepting (jrun k (CHR 0x60 # s))"
  shows "in_string k"
proof (rule ccontr)
  assume "\<not> in_string k"
  from jstep_backtick [OF assms(1) this] have "\<not> accepting (jrun (jstep k (CHR 0x60)) s)"
    by (rule dead_not_accepting)
  with assms(2) show False by simp
qed

lemma remove_all_lockstep:
  assumes "fence_like p"
  shows "wf_config k \<Longrightarrow> accepting (jrun k b) \<Longrightarrow>
         remove_all p (b @ z) = remove_all p b @ remove_all p z
         \<and> accepting (jrun k (remove_all p b))"
  using assms
proof (induction p b arbitrary: k rule: remove_all.induct)
  case (1 p)
  then show ?case by simp
next
  case (2 p c cs)
  from "2.prems"(3) have p: "p \<noteq> []" "hd p = CHR 0x60" "set p \<subseteq> fence_chars"
    by (simp_all add: fence_like_def)
  show ?case
  proof (cases "prefix p ((c # cs) @ z)")
    case True
    with p have c: "c = CHR 0x60"
      by (cases p) auto
    with "2.prems" have str: "in_string k"
      using accepted_backtick by blast
    show ?thesis
    proof (cases "prefix p (c # cs)")
      case inside: True
      then obtain r where r: "c # cs = p @ r"
        by (auto simp: prefix_def)
      then have d: "drop (length p) (c # cs) = r" and dz: "drop (length p) ((c # cs) @ z) = r @ z"
        by simp_all
      have "jrun k (c # cs) = jrun k r"
        unfolding r jrun_append using jrun_in_string [OF str p(3)] by simp
      with "2.prems" have acc: "accepting (jrun k r)" by simp
      from "2.IH"(1) [OF _ "2.prems"(1) _ "2.prems"(3), of ] inside p acc d
      have "remove_all p (r @ z) = remove_all p r @ remove_all p z
            \<and> accepting (jrun k (remove_all p r))"
        by simp
      moreover have "remove_all p ((c # cs) @ z) = remove_all p (r @ z)"
        using True p dz by simp
      moreover have "remove_all p (c # cs) = remove_all p r"
        using inside p d by simp
      ultimately show ?thesis by simp
    next
      case outside: False
      from True have "prefix p (c # cs) \<or> prefix (c # cs) p"
        using prefix_same_cases [of p "(c # cs) @ z" "c # cs"] by auto
      with outside have "prefix (c # cs) p" by simp
      then have "set (c # cs) \<subseteq> fence_chars"
        using p(3) set_mono_prefix by blast
      then have "jrun k (c # cs) = k"
        by (rule jrun_in_string [OF str])
      with "2.prems"(2) in_string_not_accepting [OF str] show ?thesis by simp
    qed
  next
    case False
    then have np: "\<not> prefix p (c # cs)"
      using prefix_prefix [of p "c # cs" z] by auto
    from "2.prems" have "accepting (jrun (jstep k c) cs)" by simp
    from "2.IH"(2) [OF _ wf_jstep [OF "2.prems"(1)] this "2.prems"(3)] np
    have "remove_all p (cs @ z) = remove_all p cs @ remove_all p z
          \<and> accepting (jrun (jstep k c) (remove_all p cs))"
      by simp
    with False np show ?thesis by simp
  qed
qed

lemma remove_all_skip:
  assumes "fence_like p" and "CHR 0x60 \<notin> set w"
  shows "remove_all p (w @ x) = w @ remove_all p x"
  using assms(2)
proof (induction w)
  case Nil
  then show ?case by simp
next
  case (Cons c w)
  from assms(1) obtain q where "p = CHR 0x60 # q"
    by (cases p) (auto simp: fence_like_def)
  with Cons show ?case by simp
qed

lemma is_ws_not_backtick: "is_ws c \<Longrightarrow> c \<noteq> CHR 0x60"
  by (auto simp: is_ws_def)

lemma ws_no_backtick: "list_all is_ws w \<Longrightarrow> CHR 0x60 \<notin> set w"
  by (auto simp: list_all_iff dest: is_ws_not_backtick)

lemma fence_like_json: "fence_like ''```json''"
  by (simp add: fence_like_def fence_chars_def)

lemma fence_like_plain: "fence_like ''```''"
  by (simp add: fence_like_def fence_chars_def)

lemma ws_not_start:
  assumes "is_ws c"
  shows "c \<noteq> CHR 0x22" "c \<noteq> CHR ''{''" "c \<noteq> CHR ''[''" "c \<noteq> CHR ''-''" "c \<noteq> CHR ''0''"
    "\<not> is_digit c" "c \<noteq> CHR ''t''" "c \<noteq> CHR ''f''" "c \<noteq> CHR ''n''"
  using assms by (auto simp: is_ws_def is_digit_def)

lemma value_start_ws: "is_ws c \<Longrightarrow> value_start st c = (Dead, st)"
  by (simp add: value_start_def ws_not_start)

lemma after_value_ws:
  "is_ws c \<Longrightarrow> after_value st c = (if json_ws c then (AfterValue, st) else (Dead, st))"
  by (auto simp: is_ws_def after_value_def json_ws_def split: list.splits ctx.splits)

lemma num_step_ws: "is_ws c \<Longrightarrow> num_step q c = None"
  by (cases q) (auto simp: is_ws_def is_digit_def)

lemma ws_not_quote: "is_ws c \<Longrightarrow> c \<noteq> CHR 0x22 \<and> c \<noteq> CHR '']'' \<and> c \<noteq> CHR ''}'' \<and> c \<noteq> CHR '':''"
  by (auto simp: is_ws_def)

lemma ws_not_letter: "is_ws c \<Longrightarrow> c \<notin> set ''truefalsn''"
  by (auto simp: is_ws_def)

lemma ws_start:
  assumes "is_ws c" and "accepting (jrun (BeforeValue, []) (c # s))"
  shows "accepting (jrun (BeforeValue, []) s)"
proof (cases "json_ws c")
  case True
  with assms(2) show ?thesis by simp
next
  case False
  with assms(1) have "fst (jstep (BeforeValue, []) c) = Dead"
    by (simp add: value_start_ws)
  from dead_not_accepting [OF this] assms(2) show ?thesis by simp
qed

lemma json_valid_dropWhile: "json_valid s \<Longrightarrow> json_valid (dropWhile is_ws s)"
  unfolding json_valid_def by (induction s) (auto dest: ws_start)

lemma ws_end:
  assumes "is_ws c" and "wf_config k" and "accepting (jstep k c)"
  shows "accepting k"
proof (cases k)
  case (Pair m st)
  note q = ws_not_quote [OF assms(1)]
  show ?thesis
  proof (cases m)
    case BeforeValue
    with Pair assms show ?thesis by (simp add: value_start_ws split: if_splits)
  next
    case ArrStart
    with Pair assms q show ?thesis by (simp add: value_start_ws split: if_splits)
  next
    case ObjStart
    with Pair assms q show ?thesis by (simp split: if_splits)
  next
    case BeforeKey
    with Pair assms q show ?thesis by (simp split: if_splits)
  next
    case (KeyStr x)
    with Pair assms q show ?thesis by (simp split: if_splits option.splits)
  next
    case (ValStr x)
    with Pair assms q show ?thesis by (simp split: if_splits option.splits)
  next
    case AfterKey
    with Pair assms q show ?thesis by (simp split: if_splits)
  next
    case AfterValue
    with Pair assms show ?thesis by (simp add: after_value_ws split: if_splits)
  next
    case (Num x)
    with Pair assms show ?thesis by (simp add: after_value_ws num_step_ws split: if_splits)
  next
    case (Lit l)
    with Pair assms ws_not_letter [OF assms(1)] show ?thesis
      by (cases l) (auto split: if_splits)
  next
    case Dead
    with Pair assms show ?thesis by simp
  qed
qed

lemma wf_jrun: "wf_config k \<Longrightarrow> wf_config (jrun k s)"
  by (induction s arbitrary: k) (simp_all add: wf_jstep)

lemma json_valid_butlast_ws:
  assumes "json_valid (s @ [c])" and "is_ws c"
  shows "json_valid s"
proof -
  have "wf_config (jrun (BeforeValue, []) s)"
    by (rule wf_jrun) simp
  with assms show ?thesis
    unfolding json_valid_def jrun_append by (auto intro: ws_end)
qed

lemma json_valid_rev_dropWhile:
  "json_valid s \<Longrightarrow> json_valid (rev (dropWhile is_ws (rev s)))"
proof (induction s rule: rev_induct)
  case Nil
  then show ?case by simp
next
  case (snoc c s)
  then show ?case by (auto dest: json_valid_butlast_ws)
qed

lemma json_valid_trim: "json_valid s \<Longrightarrow> json_valid (trim s)"
  unfolding trim_def by (intro json_valid_rev_dropWhile json_valid_dropWhile)


lemma json_valid_nonblank: "json_valid s \<Longrightarrow> \<not> list_all is_ws s"
proof
  assume v: "json_valid s" and w: "list_all is_ws s"
  from w have "fst (jrun (BeforeValue, []) s) = BeforeValue \<or> fst (jrun (BeforeValue, []) s) = Dead"
  proof (induction s rule: rev_induct)
    case Nil
    then show ?case by simp
  next
    case (snoc c s)
    then have c: "is_ws c" and "list_all is_ws s" by simp_all
    with snoc.IH consider st where "jrun (BeforeValue, []) s = (BeforeValue, st)"
      | st where "jrun (BeforeValue, []) s = (Dead, st)"
      by (cases "jrun (BeforeValue, []) s") auto
    then show ?case
      by cases (simp_all add: jrun_append value_start_ws [OF c])
  qed
  with v show False
    unfolding json_valid_def by (cases "jrun (BeforeValue, []) s") auto
qed

lemma dropWhile_ws_append:
  "list_all is_ws w \<Longrightarrow> dropWhile is_ws (w @ x) = dropWhile is_ws x"
  by (induction w) simp_all

lemma trim_wrapped:
  assumes "list_all is_ws w1" and "list_all is_ws w2" and "\<not> list_all is_ws x"
  shows "trim (w1 @ x @ w2) = trim x"
proof -
  from assms(3) obtain c where c: "c \<in> set x" "\<not> is_ws c"
    by (auto simp: list_all_iff)
  have "dropWhile is_ws (w1 @ x @ w2) = dropWhile is_ws (x @ w2)"
    by (rule dropWhile_ws_append [OF assms(1)])
  also have "\<dots> = dropWhile is_ws x @ w2"
    using c by (rule dropWhile_append1 [where P = is_ws])
  finally have "dropWhile is_ws (w1 @ x @ w2) = dropWhile is_ws x @ w2" .
  moreover have "dropWhile is_ws (rev (y @ w2)) = dropWhile is_ws (rev y)" for y
    using assms(2) by (simp add: dropWhile_ws_append)
  ultimately show ?thesis by (simp add: trim_def)
qed

lemma fences_removed:
  assumes "json_valid j" and "list_all is_ws w1" and "list_all is_ws w2"
  shows "cleanedJson (''```json'' @ w1 @ j @ w2 @ ''```'')
           = trim (remove_all ''```'' (remove_all ''```json'' j))"
    and "json_valid (cleanedJson (''```json'' @ w1 @ j @ w2 @ ''```''))"
proof -
  let ?F = "''```json''"
  let ?f = "''```''"
  let ?j1 = "remove_all ?F j"
  let ?j2 = "remove_all ?f ?j1"
  note b1 = ws_no_backtick [OF assms(2)] and b2 = ws_no_backtick [OF assms(3)]
  have acc: "accepting (jrun (BeforeValue, []) j)"
    using assms(1) by (simp add: json_valid_def)
  from remove_all_lockstep [OF fence_like_json _ acc, of "w2 @ ?f"]
  have s1: "remove_all ?F (j @ w2 @ ?f) = ?j1 @ remove_all ?F (w2 @ ?f)"
    and a1: "accepting (jrun (BeforeValue, []) ?j1)"
    by simp_all
  from remove_all_lockstep [OF fence_like_plain _ a1, of "w2 @ ?f"]
  have s2: "remove_all ?f (?j1 @ w2 @ ?f) = ?j2 @ remove_all ?f (w2 @ ?f)"
    and a2: "accepting (jrun (BeforeValue, []) ?j2)"
    by simp_all
  have e1: "remove_all ?F (w2 @ ?f) = w2 @ ?f"
    using remove_all_skip [OF fence_like_json b2, of ?f] by simp
  have e2: "remove_all ?f (w2 @ ?f) = w2"
    using remove_all_skip [OF fence_like_plain b2, of ?f] by simp
  have "remove_all ?F (?F @ w1 @ j @ w2 @ ?f) = remove_all ?F (w1 @ j @ w2 @ ?f)"
    by simp
  also have "\<dots> = w1 @ ?j1 @ w2 @ ?f"
    using remove_all_skip [OF fence_like_json b1, of "j @ w2 @ ?f"] s1 e1 by simp
  finally have r1: "remove_all ?F (?F @ w1 @ j @ w2 @ ?f) = w1 @ ?j1 @ w2 @ ?f" .
  have r2: "remove_all ?f (w1 @ ?j1 @ w2 @ ?f) = w1 @ ?j2 @ w2"
    using remove_all_skip [OF fence_like_plain b1, of "?j1 @ w2 @ ?f"] s2 e2 by simp
  have v2: "json_valid ?j2"
    using a2 by (simp add: json_valid_def)
  have "cleanedJson (?F @ w1 @ j @ w2 @ ?f) = trim (w1 @ ?j2 @ w2)"
    unfolding cleanedJson_def r1 r2 ..
  also have "\<dots> = trim ?j2"
    by (rule trim_wrapped [OF assms(2,3) json_valid_nonblank [OF v2]])
  finally show "cleanedJson (?F @ w1 @ j @ w2 @ ?f) = trim ?j2" .
  then show "json_valid (cleanedJson (?F @ w1 @ j @ w2 @ ?f))"
    using json_valid_trim [OF v2] by simp
qed

lemma remove_all_none:
  assumes "fence_like p" and "CHR 0x60 \<notin> set j"
  shows "remove_all p j = j"
  using remove_all_skip [OF assms, of "[]"] by simp

text \<open>
  Claim C9. When the text of the response is valid JSON, possibly with whitespace
  around it, between the fences \<^verbatim>\<open>```json\<close> and \<^verbatim>\<open>```\<close>, \<open>performAnalysis\<close> returns a
  result and not the error: the text it parses is the JSON with every \<^verbatim>\<open>```json\<close> and
  then every \<^verbatim>\<open>```\<close> deleted (also those inside its strings) and trimmed, which is valid
  JSON again. When the JSON has no backquote, this is the JSON itself, trimmed.
\<close>

theorem fenced_json_is_parsed:
  assumes "json_valid j" and "blank w1" and "blank w2"
  shows "performAnalysis decode (Resolved (Some (''```json'' @ w1 @ j @ w2 @ ''```'')))
           = Inr (decode (trim (remove_all ''```'' (remove_all ''```json'' j))))
         \<and> json_valid (trim (remove_all ''```'' (remove_all ''```json'' j)))
         \<and> (CHR 0x60 \<notin> set j \<longrightarrow>
              performAnalysis decode (Resolved (Some (''```json'' @ w1 @ j @ w2 @ ''```'')))
                = Inr (decode (trim j)))"
proof -
  from assms have w: "list_all is_ws w1" "list_all is_ws w2"
    by (simp_all add: blank_def)
  note c = fences_removed [OF assms(1) w]
  have "performAnalysis decode (Resolved (Some (''```json'' @ w1 @ j @ w2 @ ''```'')))
          = Inr (decode (cleanedJson (''```json'' @ w1 @ j @ w2 @ ''```'')))"
    using c(2) by (simp add: performAnalysis_def performAnalysis_try_def JSON_parse_def)
  with c show ?thesis
    by (auto simp: remove_all_none fence_like_json fence_like_plain)
qed

lemma sample_json:
  "json_valid ''{\"potentialErrors\":[],\"drugInformation\":[],\"labInterpretation\":[]}''"
  by code_simp

theorem fenced_json_is_parsed_witness:
  "performAnalysis id
     (Resolved (Some (''```json'' @ ''\<newline>''
        @ ''{\"potentialErrors\":[],\"drugInformation\":[],\"labInterpretation\":[]}''
        @ ''\<newline>'' @ ''```'')))
   = Inr ''{\"potentialErrors\":[],\"drugInformation\":[],\"labInterpretation\":[]}''"
proof -
  have b: "blank ''\<newline>''" by (simp add: blank_def is_ws_def)
  have t: "trim ''{\"potentialErrors\":[],\"drugInformation\":[],\"labInterpretation\":[]}''
           = ''{\"potentialErrors\":[],\"drugInformation\":[],\"labInterpretation\":[]}''"
    by (simp add: trim_def is_ws_def)
  have n: "CHR 0x60 \<notin> set ''{\"potentialErrors\":[],\"drugInformation\":[],\"labInterpretation\":[]}''"
    by simp
  from fenced_json_is_parsed [OF sample_json b b, of id] n
  have "performAnalysis id
     (Resolved (Some (''```json'' @ ''\<newline>''
        @ ''{\"potentialErrors\":[],\"drugInformation\":[],\"labInterpretation\":[]}''
        @ ''\<newline>'' @ ''```'')))
   = Inr (id (trim ''{\"potentialErrors\":[],\"drugInformation\":[],\"labInterpretation\":[]}''))"
    by blast
  then show ?thesis unfolding t id_apply .
qed

end
